theory Spec2Isabelle
  imports Main "HOL-Library.Sublist"
begin

section \<open>The GitHub client of Hermit (github/api.go)\<close>

text \<open>
  The client is a thin layer over three packages of Go's standard library (net/url,
  net/http, encoding/json) and over github.com/pkg/errors. The functions of api.go are
  embedded as they are written. What the standard library computes from the outside
  world (the URL parser, the HTTP round trip, the JSON decoder) enters as a parameter, so
  every theorem holds for whatever these calls return.
\<close>

subsection \<open>Errors\<close>

text \<open>
  An \<open>error\<close> value is either produced by the standard library (\<open>LibError\<close>, with its
  message) or built by one of the three constructors of pkg/errors that api.go calls.
  A nil error is \<open>None\<close> of \<open>error option\<close>.
\<close>

datatype error =
    LibError string
  | Wrap error string
  | WithStack error
  | Errorf string

text \<open>The message of an error, as its method \<open>Error()\<close> prints it.\<close>

fun Error :: "error \<Rightarrow> string" where
  "Error (LibError m) = m"
| "Error (Wrap err m) = m @ '': '' @ Error err"
| "Error (WithStack err) = Error err"
| "Error (Errorf m) = m"

text \<open>A run-time panic of Go: the only one api.go could raise is a slice out of range.\<close>

datatype panic = SliceBoundsOutOfRange

subsection \<open>Strings and slices\<close>

text \<open>
  \<open>strings.Split(s, sep)\<close> for a separator of one byte (api.go splits on \<open>"/"\<close> only):
  the pieces of \<open>s\<close> between the separators, in order; \<open>cur\<close> is the piece being read.
\<close>

fun Split_from :: "char \<Rightarrow> string \<Rightarrow> string \<Rightarrow> string list" where
  "Split_from sep cur [] = [cur]"
| "Split_from sep cur (c # cs) =
     (if c = sep then cur # Split_from sep [] cs else Split_from sep (cur @ [c]) cs)"

definition Split :: "string \<Rightarrow> char \<Rightarrow> string list" where
  "Split s sep = Split_from sep [] s"

text \<open>\<open>strings.Join(elems, sep)\<close>.\<close>

fun Join :: "string list \<Rightarrow> string \<Rightarrow> string" where
  "Join [] sep = []"
| "Join [x] sep = x"
| "Join (x # y # ys) sep = x @ sep @ Join (y # ys) sep"

text \<open>
  The slice expression \<open>xs[lo:hi]\<close>. Go panics unless \<open>lo \<le> hi \<le> cap(xs)\<close>; the slice
  that \<open>strings.Split\<close> returns has its capacity equal to its length.
\<close>

definition slice :: "'a list \<Rightarrow> nat \<Rightarrow> nat \<Rightarrow> panic + 'a list" where
  "slice xs lo hi =
     (if lo \<le> hi \<and> hi \<le> length xs then Inr (take (hi - lo) (drop lo xs))
      else Inl SliceBoundsOutOfRange)"

subsection \<open>ProjectForURL\<close>

text \<open>The fields of \<open>url.URL\<close> that the client reads.\<close>

record URL =
  Scheme :: string
  Host :: string
  Path :: string

text \<open>
  \<open>ProjectForURL\<close> (api.go, lines 54 to 67). The parameter \<open>url_Parse\<close> stands for
  \<open>url.Parse\<close> of net/url. The result is \<open>Inl\<close> if the function panics.
\<close>

definition ProjectForURL :: "(string \<Rightarrow> error + URL) \<Rightarrow> string \<Rightarrow> panic + string" where
  "ProjectForURL url_Parse sourceURL =
     (case url_Parse sourceURL of
        Inl err \<Rightarrow> Inr ''''
      | Inr u \<Rightarrow>
          if Host u \<noteq> ''github.com'' then Inr ''''
          else
            let parts = Split (Path u) (CHR ''/'') in
            if length parts < 3 then Inr ''''
            else (case slice parts 1 3 of
                    Inl p \<Rightarrow> Inl p
                  | Inr ps \<Rightarrow> Inr (Join ps ''/'')))"

text \<open>
  To run \<open>ProjectForURL\<close> on concrete strings: a parser for plain absolute URLs
  \<open>scheme://host/path\<close> written with lower-case letters in the scheme and with letters,
  digits, \<open>.\<close>, \<open>-\<close>, \<open>_\<close> and \<open>/\<close> after it (no port, user, query, fragment or escape).
  On such a string \<open>url.Parse\<close> returns these three fields. Every other string is
  refused here, also where \<open>url.Parse\<close> would accept it.
\<close>

definition lower_letter :: "char \<Rightarrow> bool" where
  "lower_letter c = (c \<in> set ''abcdefghijklmnopqrstuvwxyz'')"

definition plain_char :: "char \<Rightarrow> bool" where
  "plain_char c =
     (c \<in> set ''abcdefghijklmnopqrstuvwxyzABCDEFGHIJKLMNOPQRSTUVWXYZ0123456789.-_/'')"

definition plain_url_Parse :: "string \<Rightarrow> error + URL" where
  "plain_url_Parse s =
     (let scheme = takeWhile (\<lambda>c. c \<noteq> CHR '':'') s;
          rest = dropWhile (\<lambda>c. c \<noteq> CHR '':'') s;
          after = drop 3 rest
      in if scheme \<noteq> [] \<and> list_all lower_letter scheme \<and> take 3 rest = ''://''
            \<and> list_all plain_char after
         then Inr \<lparr>Scheme = scheme,
                   Host = takeWhile (\<lambda>c. c \<noteq> CHR ''/'') after,
                   Path = dropWhile (\<lambda>c. c \<noteq> CHR ''/'') after\<rparr>
         else Inl (LibError ''not a plain URL''))"

subsection \<open>The data model\<close>

record Repo =
  Description :: string
  Homepage :: string

record Asset =
  Name :: string
  URL :: string

record Release =
  TagName :: string
  Assets :: "Asset list"

subsection \<open>Transports and construction\<close>

text \<open>
  An \<open>http.RoundTripper\<close> is the default transport of net/http or the decorator that
  \<open>TokenAuthenticatedTransport\<close> builds around a base transport. An \<open>http.Client\<close> whose
  field \<open>Transport\<close> is nil (\<open>None\<close>) uses the default transport; \<open>http.DefaultClient\<close>
  is such a client.
\<close>

datatype RoundTripper =
    DefaultTransport
  | TokenAuthenticated RoundTripper string

record http_Client =
  Transport :: "RoundTripper option"

definition DefaultClient :: http_Client where
  "DefaultClient = \<lparr>Transport = None\<rparr>"

definition transport_of :: "http_Client \<Rightarrow> RoundTripper" where
  "transport_of c = (case Transport c of None \<Rightarrow> DefaultTransport | Some rt \<Rightarrow> rt)"

text \<open>
  Modelled from the spec: \<open>TokenAuthenticatedTransport\<close> is called by \<open>New\<close> and defined
  in another file of the package, not in api.go. Section 4.1: it produces a transport
  that adds a credential derived from the token to every request and forwards it to the
  wrapped base transport, which is the default one if no base transport is supplied.
\<close>

definition TokenAuthenticatedTransport :: "RoundTripper option \<Rightarrow> string \<Rightarrow> RoundTripper" where
  "TokenAuthenticatedTransport transport token =
     TokenAuthenticated (case transport of None \<Rightarrow> DefaultTransport | Some rt \<Rightarrow> rt) token"

record Client =
  client :: http_Client

text \<open>\<open>New\<close> (api.go, lines 43 to 51).\<close>

definition New :: "string \<Rightarrow> Client" where
  "New token =
     (if token = '''' then \<lparr>client = DefaultClient\<rparr>
      else \<lparr>client = \<lparr>Transport = Some (TokenAuthenticatedTransport None token)\<rparr>\<rparr>)"

subsection \<open>Requests, responses and the outside world\<close>

type_synonym Header = "(string \<times> string list) list"

text \<open>
  The fields of \<open>http.Request\<close> that the client sets: the method, the URL the request
  was built for (\<open>Target\<close>, the string given to \<open>http.NewRequest\<close>) and the header.
\<close>

record Request =
  Method :: string
  Target :: string
  Header :: Header

text \<open>
  A response body is an open stream: \<open>handle\<close> tells one stream from another,
  \<open>content\<close> is what reading it yields.
\<close>

record ReadCloser =
  handle :: nat
  content :: string

record Response =
  StatusCode :: int
  Status :: string
  Body :: ReadCloser

text \<open>
  What the client does to the outside world, in the order it does it: a request handed to
  \<open>(*http.Client).Do\<close>, a body read by the JSON decoder, a body closed.
\<close>

datatype event =
    Sent http_Client Request
  | BodyRead nat
  | BodyClose nat

text \<open>
  The HTTP round trips behind the events. One call of \<open>Do\<close> performs a round trip
  for the request it is given and one more for each redirect it follows; \<open>hops c req\<close>
  stands for the URLs of the round trips that \<open>c.Do(req)\<close> performs, in order.
\<close>

fun wire :: "(http_Client \<Rightarrow> Request \<Rightarrow> string list) \<Rightarrow> event list \<Rightarrow> string list" where
  "wire hops [] = []"
| "wire hops (Sent c req # evs) = hops c req @ wire hops evs"
| "wire hops (BodyRead h # evs) = wire hops evs"
| "wire hops (BodyClose h # evs) = wire hops evs"

text \<open>
  The calls into the standard library whose result depends on more than the client:
  \<^item> \<open>NewRequest_error method url\<close>: the error of \<open>http.NewRequest(method, url, nil)\<close>,
    if it reports one (a URL that does not parse);
  \<^item> \<open>client_Do c req\<close>: what \<open>c.Do(req)\<close> returns, a transport error or the response;
  \<^item> \<open>json_Decode bytes dest\<close>: what \<open>json.NewDecoder(body).Decode(dest)\<close> returns on
    a body with these bytes, and the destination as the decoder leaves it (on an error
    it may have written a part of it).
\<close>

record 'd stdlib =
  NewRequest_error :: "string \<Rightarrow> string \<Rightarrow> error option"
  client_Do :: "http_Client \<Rightarrow> Request \<Rightarrow> error + Response"
  json_Decode :: "string \<Rightarrow> 'd \<Rightarrow> error option \<times> 'd"

text \<open>
  \<open>http.NewRequest\<close>: the error, or a request with this method and URL and an empty
  header.
\<close>

definition http_NewRequest :: "'d stdlib \<Rightarrow> string \<Rightarrow> string \<Rightarrow> error + Request" where
  "http_NewRequest lib method url =
     (case NewRequest_error lib method url of
        Some err \<Rightarrow> Inl err
      | None \<Rightarrow> Inr \<lparr>Method = method, Target = url, Header = []\<rparr>)"

text \<open>\<open>Header.Clone\<close>: a copy; values are immutable here, so the copy is the value.\<close>

definition Clone :: "Header \<Rightarrow> Header" where
  "Clone h = h"

subsection \<open>The operations of the client\<close>

text \<open>\<open>request\<close> (api.go, lines 121 to 129).\<close>

definition request :: "'d stdlib \<Rightarrow> string \<Rightarrow> Header \<Rightarrow> error + Request" where
  "request lib url headers =
     (case http_NewRequest lib ''GET'' url of
        Inl err \<Rightarrow> Inl (WithStack err)
      | Inr req \<Rightarrow> Inr (req\<lparr>Header := Clone headers\<rparr>))"

text \<open>
  \<open>decode\<close> (api.go, lines 100 to 119). It returns its error, the destination as it
  leaves it, and the events of the world extended by its own. The deferred
  \<open>resp.Body.Close()\<close> runs on each of the three returns that follow it.
\<close>

definition decode ::
  "'d stdlib \<Rightarrow> Client \<Rightarrow> string \<Rightarrow> 'd \<Rightarrow> event list \<Rightarrow> error option \<times> 'd \<times> event list" where
  "decode lib a url dest w =
     (case request lib url [] of
        Inl err \<Rightarrow> (Some (Wrap err url), dest, w)
      | Inr req \<Rightarrow>
          (case client_Do lib (client a) req of
             Inl err \<Rightarrow> (Some (Wrap err url), dest, w @ [Sent (client a) req])
           | Inr resp \<Rightarrow>
               if StatusCode resp < 200 \<or> StatusCode resp > 299
               then (Some (Errorf (url @ '': GitHub API request failed with '' @ Status resp)),
                     dest,
                     w @ [Sent (client a) req, BodyClose (handle (Body resp))])
               else
                 (case json_Decode lib (content (Body resp)) dest of
                    (Some err, dest') \<Rightarrow>
                      (Some (Wrap err url), dest',
                       w @ [Sent (client a) req, BodyRead (handle (Body resp)),
                            BodyClose (handle (Body resp))])
                  | (None, dest') \<Rightarrow>
                      (None, dest',
                       w @ [Sent (client a) req, BodyRead (handle (Body resp)),
                            BodyClose (handle (Body resp))]))))"

text \<open>
  \<open>Repo\<close>, \<open>LatestRelease\<close> and \<open>Releases\<close> (api.go, lines 70 to 87). Each returns its
  destination together with the error of \<open>decode\<close>. In \<open>Releases\<close> the destination is
  the named result \<open>releases\<close>, nil (the empty list) before the call and returned as
  \<open>decode\<close> leaves it.
\<close>

definition Repo ::
  "Repo stdlib \<Rightarrow> Client \<Rightarrow> string \<Rightarrow> event list \<Rightarrow> (Repo \<times> error option) \<times> event list" where
  "Repo lib a repo w =
     (let response = \<lparr>Description = '''', Homepage = ''''\<rparr>;
          url = ''https://api.github.com/repos/'' @ repo
      in case decode lib a url response w of
           (err, response', w') \<Rightarrow> ((response', err), w'))"

definition LatestRelease ::
  "Release stdlib \<Rightarrow> Client \<Rightarrow> string \<Rightarrow> event list \<Rightarrow> (Release \<times> error option) \<times> event list" where
  "LatestRelease lib a repo w =
     (let url = ''https://api.github.com/repos/'' @ repo @ ''/releases/latest'';
          release = \<lparr>TagName = '''', Assets = []\<rparr>
      in case decode lib a url release w of
           (err, release', w') \<Rightarrow> ((release', err), w'))"

definition Releases ::
  "Release list stdlib \<Rightarrow> Client \<Rightarrow> string \<Rightarrow> event list
     \<Rightarrow> (Release list \<times> error option) \<times> event list" where
  "Releases lib a repo w =
     (let url = ''https://api.github.com/repos/'' @ repo @ ''/releases''
      in case decode lib a url [] w of
           (err, releases, w') \<Rightarrow> ((releases, err), w'))"

text \<open>\<open>Download\<close> (api.go, lines 90 to 98).\<close>

definition Download ::
  "'d stdlib \<Rightarrow> Client \<Rightarrow> Asset \<Rightarrow> event list \<Rightarrow> (error + Response) \<times> event list" where
  "Download lib a asset w =
     (case request lib (URL asset) [(''Accept'', [''application/octet-stream''])] of
        Inl err \<Rightarrow> (Inl (WithStack err), w)
      | Inr req \<Rightarrow> (client_Do lib (client a) req, w @ [Sent (client a) req]))"

subsection \<open>A mock endpoint\<close>

text \<open>
  To run the operations on concrete inputs: a standard library whose HTTP client answers
  every request with \<open>answer\<close> and whose JSON decoder returns \<open>decoded\<close>.
  \<open>http.NewRequest\<close> fails in it on the first check that \<open>url.Parse\<close> makes: a URL
  with an ASCII control byte (below \<open>0x20\<close>, or \<open>0x7f\<close>) is refused.
\<close>

definition has_CTL_byte :: "string \<Rightarrow> bool" where
  "has_CTL_byte s = list_ex (\<lambda>c. (of_char c :: nat) < 32 \<or> (of_char c :: nat) = 127) s"

definition mock :: "(error + Response) \<Rightarrow> (error option \<times> 'd) \<Rightarrow> 'd stdlib" where
  "mock answer decoded =
     \<lparr>NewRequest_error =
        (\<lambda>method url. if has_CTL_byte url
           then Some (LibError ''net/url: invalid control character in URL'') else None),
      client_Do = (\<lambda>c req. answer),
      json_Decode = (\<lambda>bytes dest. decoded)\<rparr>"

definition not_found :: Response where
  "not_found = \<lparr>StatusCode = 404, Status = ''404 Not Found'',
                  Body = \<lparr>handle = 7, content = ''{}''\<rparr>\<rparr>"

definition ok :: "string \<Rightarrow> Response" where
  "ok bytes = \<lparr>StatusCode = 200, Status = ''200 OK'',
                 Body = \<lparr>handle = 3, content = bytes\<rparr>\<rparr>"

text \<open>Bodies, an asset and transport errors for the examples.\<close>

definition repo_json :: string where
  \<open>repo_json = ''{"description":"d","homepage":"h"}''\<close>

definition bad_releases_json :: string where
  \<open>bad_releases_json = ''[{"tag_name":1}]''\<close>

definition sample_asset :: Asset where
  "sample_asset = \<lparr>Name = ''hermit-linux-amd64.gz'',
                     URL = ''https://api.github.com/repos/cashapp/hermit/releases/assets/1''\<rparr>"

definition refused :: error where
  "refused = LibError ''dial tcp: connection refused''"

text \<open>
  The error of a \<open>Do\<close> that followed a redirect and failed on the second hop: net/http
  names the URL of the hop that failed.
\<close>

definition redirect_refused :: error where
  "redirect_refused =
     LibError ''Get https://objects.githubusercontent.com/release-asset/1: dial tcp: connection refused''"

text \<open>
  Two bodies that encoding/json accepts: one without the key \<open>homepage\<close> (the field
  keeps its value and no error is reported), one with bytes after its first JSON value
  (the decoder stops at the end of the value and does not read them).
\<close>

definition partial_repo_json :: string where
  \<open>partial_repo_json = ''{"description":"d"}''\<close>

definition trailing_repo_json :: string where
  \<open>trailing_repo_json = ''{"description":"d","homepage":"h"} trailing garbage''\<close>

text \<open>
  The round trips of a \<open>Do\<close> that is answered \<open>301 Moved Permanently\<close> for a renamed
  repository and follows the redirect.
\<close>

definition moved :: "http_Client \<Rightarrow> Request \<Rightarrow> string list" where
  "moved c req =
     (if Target req = ''https://api.github.com/repos/old/name''
      then [Target req, ''https://api.github.com/repositories/1296269'']
      else [Target req])"

section \<open>Properties\<close>

subsection \<open>Splitting and slicing\<close>

lemma Split_from_app:
  "sep \<notin> set a \<Longrightarrow> Split_from sep cur (a @ sep # rest) = (cur @ a) # Split_from sep [] rest"
  by (induction a arbitrary: cur) auto

lemma Split_from_nosep: "sep \<notin> set a \<Longrightarrow> Split_from sep cur a = [cur @ a]"
  by (induction a arbitrary: cur) auto

text \<open>\<open>strings.Split\<close> returns one piece more than there are separators.\<close>

lemma Split_from_length:
  "length (Split_from sep cur s) = Suc (length (filter (\<lambda>c. c = sep) s))"
  by (induction s arbitrary: cur) auto

lemma Split_length: "length (Split s sep) = Suc (length (filter (\<lambda>c. c = sep) s))"
  by (simp add: Split_def Split_from_length)

lemma slice_1_3:
  assumes "3 \<le> length xs"
  shows "slice xs (Suc 0) 3 = Inr [xs ! Suc 0, xs ! 2]"
proof -
  from assms obtain a b c rest where "xs = a # b # c # rest"
    by (cases xs; cases "tl xs"; cases "tl (tl xs)") auto
  then show ?thesis by (simp add: slice_def)
qed

subsection \<open>ProjectForURL\<close>

text \<open>
  Claim C3. When the string parses to a URL whose host is \<open>github.com\<close> and whose path
  splits on \<open>/\<close> into at least three pieces, \<open>ProjectForURL\<close> returns pieces 1 and 2
  (counted from 0) joined by one \<open>/\<close>, whatever pieces follow.
\<close>

theorem ProjectForURL_owner_project:
  assumes "url_Parse sourceURL = Inr u"
    and "Host u = ''github.com''"
    and "3 \<le> length (Split (Path u) (CHR ''/''))"
  shows "ProjectForURL url_Parse sourceURL =
           Inr (Split (Path u) (CHR ''/'') ! 1 @ ''/'' @ Split (Path u) (CHR ''/'') ! 2)"
  using assms by (simp add: ProjectForURL_def Let_def slice_1_3)

theorem ProjectForURL_owner_project_witness:
  "plain_url_Parse ''https://github.com/foo/bar/releases/tag/v1'' =
     Inr \<lparr>Scheme = ''https'', Host = ''github.com'', Path = ''/foo/bar/releases/tag/v1''\<rparr>
   \<and> 3 \<le> length (Split ''/foo/bar/releases/tag/v1'' (CHR ''/''))
   \<and> ProjectForURL plain_url_Parse ''https://github.com/foo/bar/releases/tag/v1'' = Inr ''foo/bar''"
proof -
  let ?u = "\<lparr>Scheme = ''https'', Host = ''github.com'', Path = ''/foo/bar/releases/tag/v1''\<rparr>"
  have p: "plain_url_Parse ''https://github.com/foo/bar/releases/tag/v1'' = Inr ?u"
    by (simp add: plain_url_Parse_def lower_letter_def plain_char_def)
  have h: "Host ?u = ''github.com''" by simp
  have l: "3 \<le> length (Split (Path ?u) (CHR ''/''))" by (simp add: Split_def)
  from ProjectForURL_owner_project
         [of plain_url_Parse "''https://github.com/foo/bar/releases/tag/v1''" ?u] p h l
  have "ProjectForURL plain_url_Parse ''https://github.com/foo/bar/releases/tag/v1'' =
          Inr ''foo/bar''"
    by (simp add: Split_def)
  with p l show ?thesis by simp
qed

text \<open>
  The same in terms of the path: for a path \<open>/owner/project\<close> followed by nothing or by
  \<open>/\<close> and anything, the result is \<open>owner/project\<close>.
\<close>

lemma ProjectForURL_path_shape:
  assumes "url_Parse sourceURL = Inr u"
    and "Host u = ''github.com''"
    and "Path u = CHR ''/'' # owner @ CHR ''/'' # project @ rest"
    and "CHR ''/'' \<notin> set owner" and "CHR ''/'' \<notin> set project"
    and "rest = [] \<or> hd rest = CHR ''/''"
  shows "ProjectForURL url_Parse sourceURL = Inr (owner @ ''/'' @ project)"
proof -
  have "\<exists>more. Split_from (CHR ''/'') [] (project @ rest) = project # more"
  proof (cases rest)
    case Nil
    then show ?thesis using assms(5) by (simp add: Split_from_nosep)
  next
    case (Cons r rs)
    with assms(6) have "rest = CHR ''/'' # rs" by simp
    then show ?thesis using assms(5) Split_from_app [of "CHR ''/''" project "[]" rs] by simp
  qed
  then obtain more where m: "Split_from (CHR ''/'') [] (project @ rest) = project # more" ..
  have "Split (Path u) (CHR ''/'') = [] # owner # project # more"
    using assms(3,4) m Split_from_app [of "CHR ''/''" owner "[]" "project @ rest"]
    by (simp add: Split_def)
  then show ?thesis using assms(1,2) by (simp add: ProjectForURL_def slice_def)
qed

text \<open>
  Claim C4. \<open>ProjectForURL\<close> returns a string on every input (it does not panic, and its
  type has no error). It returns the empty string when the string does not parse, when
  the host is not \<open>github.com\<close>, and when the path splits into fewer than three pieces.
\<close>

theorem ProjectForURL_never_fails:
  "(\<exists>r. ProjectForURL url_Parse sourceURL = Inr r)
   \<and> ((\<exists>err. url_Parse sourceURL = Inl err) \<longrightarrow> ProjectForURL url_Parse sourceURL = Inr '''')
   \<and> (\<forall>u. url_Parse sourceURL = Inr u \<and> Host u \<noteq> ''github.com''
          \<longrightarrow> ProjectForURL url_Parse sourceURL = Inr '''')
   \<and> (\<forall>u. url_Parse sourceURL = Inr u \<and> length (Split (Path u) (CHR ''/'')) < 3
          \<longrightarrow> ProjectForURL url_Parse sourceURL = Inr '''')"
proof -
  have total: "\<exists>r. ProjectForURL url_Parse sourceURL = Inr r"
  proof (cases "url_Parse sourceURL")
    case (Inl err)
    then show ?thesis by (simp add: ProjectForURL_def)
  next
    case (Inr u)
    show ?thesis
    proof (cases "3 \<le> length (Split (Path u) (CHR ''/''))")
      case True
      then show ?thesis using Inr by (simp add: ProjectForURL_def Let_def slice_1_3)
    next
      case False
      then show ?thesis using Inr by (simp add: ProjectForURL_def Let_def)
    qed
  qed
  have parse: "(\<exists>err. url_Parse sourceURL = Inl err)
          \<longrightarrow> ProjectForURL url_Parse sourceURL = Inr ''''"
    by (auto simp: ProjectForURL_def)
  have host: "\<forall>u. url_Parse sourceURL = Inr u \<and> Host u \<noteq> ''github.com''
          \<longrightarrow> ProjectForURL url_Parse sourceURL = Inr ''''"
    by (simp add: ProjectForURL_def)
  have short: "\<forall>u. url_Parse sourceURL = Inr u \<and> length (Split (Path u) (CHR ''/'')) < 3
          \<longrightarrow> ProjectForURL url_Parse sourceURL = Inr ''''"
    by (simp add: ProjectForURL_def Let_def)
  from total parse host short show ?thesis by blast
qed

theorem ProjectForURL_never_fails_witness:
  "plain_url_Parse ''://github.com/foo/bar'' = Inl (LibError ''not a plain URL'')
   \<and> ProjectForURL plain_url_Parse ''://github.com/foo/bar'' = Inr ''''
   \<and> plain_url_Parse ''https://gitlab.com/owner/project'' =
       Inr \<lparr>Scheme = ''https'', Host = ''gitlab.com'', Path = ''/owner/project''\<rparr>
   \<and> ProjectForURL plain_url_Parse ''https://gitlab.com/owner/project'' = Inr ''''
   \<and> plain_url_Parse ''https://github.com/foo'' =
       Inr \<lparr>Scheme = ''https'', Host = ''github.com'', Path = ''/foo''\<rparr>
   \<and> length (Split ''/foo'' (CHR ''/'')) < 3
   \<and> ProjectForURL plain_url_Parse ''https://github.com/foo'' = Inr ''''"
proof -
  have p1: "plain_url_Parse ''://github.com/foo/bar'' = Inl (LibError ''not a plain URL'')"
    by (simp add: plain_url_Parse_def)
  have p2: "plain_url_Parse ''https://gitlab.com/owner/project'' =
       Inr \<lparr>Scheme = ''https'', Host = ''gitlab.com'', Path = ''/owner/project''\<rparr>"
    by (simp add: plain_url_Parse_def lower_letter_def plain_char_def)
  have p3: "plain_url_Parse ''https://github.com/foo'' =
       Inr \<lparr>Scheme = ''https'', Host = ''github.com'', Path = ''/foo''\<rparr>"
    by (simp add: plain_url_Parse_def lower_letter_def plain_char_def)
  have l3: "length (Split ''/foo'' (CHR ''/'')) < 3" by (simp add: Split_def)
  from ProjectForURL_never_fails [of plain_url_Parse "''://github.com/foo/bar''"] p1
  have r1: "ProjectForURL plain_url_Parse ''://github.com/foo/bar'' = Inr ''''" by blast
  from ProjectForURL_never_fails [of plain_url_Parse "''https://gitlab.com/owner/project''"] p2
  have r2: "ProjectForURL plain_url_Parse ''https://gitlab.com/owner/project'' = Inr ''''" by simp
  from ProjectForURL_never_fails [of plain_url_Parse "''https://github.com/foo''"] p3 l3
  have r3: "ProjectForURL plain_url_Parse ''https://github.com/foo'' = Inr ''''" by simp
  from p1 p2 p3 l3 r1 r2 r3 show ?thesis by blast
qed

text \<open>
  Claim C10. When the host is \<open>github.com\<close> and the path splits into exactly three pieces
  of which the third is empty (as \<open>/owner/\<close> does), \<open>ProjectForURL\<close> returns the second
  piece followed by \<open>/\<close>: a result that is not empty and has an empty project.
\<close>

theorem ProjectForURL_trailing_slash:
  assumes "url_Parse sourceURL = Inr u"
    and "Host u = ''github.com''"
    and "Split (Path u) (CHR ''/'') = [first, owner, '''']"
  shows "ProjectForURL url_Parse sourceURL = Inr (owner @ ''/'')
         \<and> ProjectForURL url_Parse sourceURL \<noteq> Inr ''''"
  using assms by (simp add: ProjectForURL_def slice_def)

theorem ProjectForURL_trailing_slash_witness:
  "plain_url_Parse ''https://github.com/owner/'' =
     Inr \<lparr>Scheme = ''https'', Host = ''github.com'', Path = ''/owner/''\<rparr>
   \<and> Split ''/owner/'' (CHR ''/'') = ['''', ''owner'', '''']
   \<and> ProjectForURL plain_url_Parse ''https://github.com/owner/'' = Inr ''owner/''"
proof -
  let ?u = "\<lparr>Scheme = ''https'', Host = ''github.com'', Path = ''/owner/''\<rparr>"
  have p: "plain_url_Parse ''https://github.com/owner/'' = Inr ?u"
    by (simp add: plain_url_Parse_def lower_letter_def plain_char_def)
  have h: "Host ?u = ''github.com''" by simp
  have s: "Split (Path ?u) (CHR ''/'') = ['''', ''owner'', '''']" by (simp add: Split_def)
  from ProjectForURL_trailing_slash
         [of plain_url_Parse "''https://github.com/owner/''" ?u "''''" "''owner''"] p h s
  have "ProjectForURL plain_url_Parse ''https://github.com/owner/'' = Inr ''owner/''"
    by simp
  with p s show ?thesis by simp
qed

subsection \<open>Building the request\<close>

lemma request_Inr:
  "request lib url headers = Inr req \<Longrightarrow>
     req = \<lparr>Method = ''GET'', Target = url, Header = headers\<rparr>"
  by (auto simp: request_def http_NewRequest_def Clone_def split: option.splits)

lemma request_Inl:
  "request lib url headers = Inl err \<Longrightarrow>
     \<exists>cause. NewRequest_error lib ''GET'' url = Some cause \<and> err = WithStack cause"
  by (auto simp: request_def http_NewRequest_def split: option.splits)

lemma request_ok:
  "NewRequest_error lib ''GET'' url = None \<Longrightarrow>
     request lib url headers = Inr \<lparr>Method = ''GET'', Target = url, Header = headers\<rparr>"
  by (simp add: request_def http_NewRequest_def Clone_def)

lemma request_failed:
  "NewRequest_error lib ''GET'' url = Some cause \<Longrightarrow>
     request lib url headers = Inl (WithStack cause)"
  by (simp add: request_def http_NewRequest_def)

subsection \<open>The paths through decode\<close>

lemma decode_request_error:
  "request lib url [] = Inl err \<Longrightarrow> decode lib a url dest w = (Some (Wrap err url), dest, w)"
  by (simp add: decode_def)

lemma decode_transport_error:
  "request lib url [] = Inr req \<Longrightarrow> client_Do lib (client a) req = Inl err \<Longrightarrow>
     decode lib a url dest w = (Some (Wrap err url), dest, w @ [Sent (client a) req])"
  by (simp add: decode_def)

lemma decode_status_error:
  "request lib url [] = Inr req \<Longrightarrow> client_Do lib (client a) req = Inr resp \<Longrightarrow>
   StatusCode resp < 200 \<or> 299 < StatusCode resp \<Longrightarrow>
     decode lib a url dest w =
       (Some (Errorf (url @ '': GitHub API request failed with '' @ Status resp)), dest,
        w @ [Sent (client a) req, BodyClose (handle (Body resp))])"
  by (simp add: decode_def)

lemma decode_json_error:
  "request lib url [] = Inr req \<Longrightarrow> client_Do lib (client a) req = Inr resp \<Longrightarrow>
   200 \<le> StatusCode resp \<Longrightarrow> StatusCode resp \<le> 299 \<Longrightarrow>
   json_Decode lib (content (Body resp)) dest = (Some err, dest') \<Longrightarrow>
     decode lib a url dest w =
       (Some (Wrap err url), dest',
        w @ [Sent (client a) req, BodyRead (handle (Body resp)),
             BodyClose (handle (Body resp))])"
  by (simp add: decode_def)

lemma decode_success:
  "request lib url [] = Inr req \<Longrightarrow> client_Do lib (client a) req = Inr resp \<Longrightarrow>
   200 \<le> StatusCode resp \<Longrightarrow> StatusCode resp \<le> 299 \<Longrightarrow>
   json_Decode lib (content (Body resp)) dest = (None, dest') \<Longrightarrow>
     decode lib a url dest w =
       (None, dest',
        w @ [Sent (client a) req, BodyRead (handle (Body resp)),
             BodyClose (handle (Body resp))])"
  by (simp add: decode_def)

lemma decode_nil_error:
  assumes "fst (decode lib a url dest w) = None"
  shows "\<exists>req resp. request lib url [] = Inr req \<and> client_Do lib (client a) req = Inr resp
           \<and> 200 \<le> StatusCode resp \<and> StatusCode resp \<le> 299
           \<and> json_Decode lib (content (Body resp)) dest = (None, fst (snd (decode lib a url dest w)))"
  using assms
  by (auto simp: decode_def split: sum.splits if_splits prod.splits option.splits)

lemma decode_transport_error_all:
  "\<forall>req err. request lib url [] = Inr req \<and> client_Do lib (client a) req = Inl err
     \<longrightarrow> fst (decode lib a url dest w) = Some (Wrap err url)"
  by (auto simp: decode_transport_error)

lemma decode_events:
  assumes "request lib url [] = Inr req"
  shows "\<exists>evs. snd (snd (decode lib a url dest w)) = w @ Sent (client a) req # evs
           \<and> (\<forall>c r. Sent c r \<notin> set evs)"
  using assms
  by (auto simp: decode_def split: sum.splits if_splits prod.splits option.splits)

lemma decode_events_ok:
  "NewRequest_error lib ''GET'' url = None \<longrightarrow>
     (\<exists>evs. snd (snd (decode lib a url dest w)) =
              w @ Sent (client a) \<lparr>Method = ''GET'', Target = url, Header = []\<rparr> # evs
        \<and> (\<forall>c r. Sent c r \<notin> set evs))"
  by (rule impI) (rule decode_events [OF request_ok])

lemma decode_events_failed:
  "NewRequest_error lib ''GET'' url \<noteq> None \<longrightarrow> snd (snd (decode lib a url dest w)) = w"
proof (cases "NewRequest_error lib ''GET'' url")
  case None
  then show ?thesis by simp
next
  case (Some cause)
  from request_failed [OF Some, of "[]"] show ?thesis by (simp add: decode_request_error)
qed

text \<open>
  \<open>Repo\<close>, \<open>LatestRelease\<close> and \<open>Releases\<close> in terms of \<open>decode\<close>: each returns the
  destination and the error of one call of \<open>decode\<close> on its own URL.
\<close>

lemma Repo_decode:
  "Repo lib a repo w =
     (let d = decode lib a (''https://api.github.com/repos/'' @ repo)
                \<lparr>Description = '''', Homepage = ''''\<rparr> w
      in ((fst (snd d), fst d), snd (snd d)))"
  by (simp add: Repo_def Let_def split: prod.splits)

lemma LatestRelease_decode:
  "LatestRelease lib a repo w =
     (let d = decode lib a (''https://api.github.com/repos/'' @ repo @ ''/releases/latest'')
                \<lparr>TagName = '''', Assets = []\<rparr> w
      in ((fst (snd d), fst d), snd (snd d)))"
  by (simp add: LatestRelease_def Let_def split: prod.splits)

lemma Releases_decode:
  "Releases lib a repo w =
     (let d = decode lib a (''https://api.github.com/repos/'' @ repo @ ''/releases'') [] w
      in ((fst (snd d), fst d), snd (snd d)))"
  by (simp add: Releases_def Let_def split: prod.splits)

lemmas mock_simps =
  request_def http_NewRequest_def mock_def has_CTL_byte_def Clone_def New_def DefaultClient_def
  ok_def not_found_def

subsection \<open>Status failures\<close>

lemma decode_status_iff:
  "\<forall>req resp. request lib url [] = Inr req \<and> client_Do lib (client a) req = Inr resp \<longrightarrow>
     ((fst (decode lib a url dest w) =
         Some (Errorf (url @ '': GitHub API request failed with '' @ Status resp)))
        = (StatusCode resp < 200 \<or> 299 < StatusCode resp))
     \<and> (StatusCode resp < 200 \<or> 299 < StatusCode resp \<longrightarrow>
          decode lib a url dest w =
            (Some (Errorf (url @ '': GitHub API request failed with '' @ Status resp)), dest,
             w @ [Sent (client a) req, BodyClose (handle (Body resp))]))"
  by (auto simp: decode_def split: prod.splits option.splits)

lemma Repo_status:
  "(\<forall>req resp. request libR (''https://api.github.com/repos/'' @ repo) [] = Inr req
          \<and> client_Do libR (client a) req = Inr resp \<longrightarrow>
        ((snd (fst (Repo libR a repo w)) =
            Some (Errorf ((''https://api.github.com/repos/'' @ repo)
                          @ '': GitHub API request failed with '' @ Status resp)))
           = (StatusCode resp < 200 \<or> 299 < StatusCode resp))
        \<and> (StatusCode resp < 200 \<or> 299 < StatusCode resp \<longrightarrow>
             Repo libR a repo w =
               ((\<lparr>Description = '''', Homepage = ''''\<rparr>,
                 Some (Errorf ((''https://api.github.com/repos/'' @ repo)
                               @ '': GitHub API request failed with '' @ Status resp))),
                w @ [Sent (client a) req, BodyClose (handle (Body resp))])))"
proof (intro allI impI, elim conjE)
  fix req :: Request and resp :: Response
  let ?url = "''https://api.github.com/repos/'' @ repo"
  let ?d = "decode libR a ?url \<lparr>Description = '''', Homepage = ''''\<rparr> w"
  let ?E = "Some (Errorf (?url @ '': GitHub API request failed with '' @ Status resp))"
  assume r: "request libR ?url [] = Inr req"
    and d: "client_Do libR (client a) req = Inr resp"
  from decode_status_iff [rule_format, OF conjI [OF r d]]
  have A: "(fst ?d = ?E) = (StatusCode resp < 200 \<or> 299 < StatusCode resp)"
    and B: "StatusCode resp < 200 \<or> 299 < StatusCode resp \<longrightarrow>
              ?d = (?E, \<lparr>Description = '''', Homepage = ''''\<rparr>, w @ [Sent (client a) req, BodyClose (handle (Body resp))])"
    by blast+
  have C: "Repo libR a repo w = ((fst (snd ?d), fst ?d), snd (snd ?d))"
    by (simp only: Repo_decode Let_def)
  from B have B': "StatusCode resp < 200 \<or> 299 < StatusCode resp \<longrightarrow>
      ((fst (snd ?d), fst ?d), snd (snd ?d)) =
        ((\<lparr>Description = '''', Homepage = ''''\<rparr>, ?E), w @ [Sent (client a) req, BodyClose (handle (Body resp))])"
    by (intro impI) (simp only: fst_conv snd_conv)
  show "((snd (fst (Repo libR a repo w)) = ?E)
           = (StatusCode resp < 200 \<or> 299 < StatusCode resp))
        \<and> (StatusCode resp < 200 \<or> 299 < StatusCode resp \<longrightarrow>
             Repo libR a repo w =
               ((\<lparr>Description = '''', Homepage = ''''\<rparr>, ?E), w @ [Sent (client a) req, BodyClose (handle (Body resp))]))"
    unfolding C fst_conv snd_conv using A B' by (intro conjI)
qed

lemma LatestRelease_status:
  "(\<forall>req resp. request libL (''https://api.github.com/repos/'' @ repo @ ''/releases/latest'') [] = Inr req
          \<and> client_Do libL (client a) req = Inr resp \<longrightarrow>
        ((snd (fst (LatestRelease libL a repo w)) =
            Some (Errorf ((''https://api.github.com/repos/'' @ repo @ ''/releases/latest'')
                          @ '': GitHub API request failed with '' @ Status resp)))
           = (StatusCode resp < 200 \<or> 299 < StatusCode resp))
        \<and> (StatusCode resp < 200 \<or> 299 < StatusCode resp \<longrightarrow>
             LatestRelease libL a repo w =
               ((\<lparr>TagName = '''', Assets = []\<rparr>,
                 Some (Errorf ((''https://api.github.com/repos/'' @ repo @ ''/releases/latest'')
                               @ '': GitHub API request failed with '' @ Status resp))),
                w @ [Sent (client a) req, BodyClose (handle (Body resp))])))"
proof (intro allI impI, elim conjE)
  fix req :: Request and resp :: Response
  let ?url = "''https://api.github.com/repos/'' @ repo @ ''/releases/latest''"
  let ?d = "decode libL a ?url \<lparr>TagName = '''', Assets = []\<rparr> w"
  let ?E = "Some (Errorf (?url @ '': GitHub API request failed with '' @ Status resp))"
  assume r: "request libL ?url [] = Inr req"
    and d: "client_Do libL (client a) req = Inr resp"
  from decode_status_iff [rule_format, OF conjI [OF r d]]
  have A: "(fst ?d = ?E) = (StatusCode resp < 200 \<or> 299 < StatusCode resp)"
    and B: "StatusCode resp < 200 \<or> 299 < StatusCode resp \<longrightarrow>
              ?d = (?E, \<lparr>TagName = '''', Assets = []\<rparr>, w @ [Sent (client a) req, BodyClose (handle (Body resp))])"
    by blast+
  have C: "LatestRelease libL a repo w = ((fst (snd ?d), fst ?d), snd (snd ?d))"
    by (simp only: LatestRelease_decode Let_def)
  from B have B': "StatusCode resp < 200 \<or> 299 < StatusCode resp \<longrightarrow>
      ((fst (snd ?d), fst ?d), snd (snd ?d)) =
        ((\<lparr>TagName = '''', Assets = []\<rparr>, ?E), w @ [Sent (client a) req, BodyClose (handle (Body resp))])"
    by (intro impI) (simp only: fst_conv snd_conv)
  show "((snd (fst (LatestRelease libL a repo w)) = ?E)
           = (StatusCode resp < 200 \<or> 299 < StatusCode resp))
        \<and> (StatusCode resp < 200 \<or> 299 < StatusCode resp \<longrightarrow>
             LatestRelease libL a repo w =
               ((\<lparr>TagName = '''', Assets = []\<rparr>, ?E), w @ [Sent (client a) req, BodyClose (handle (Body resp))]))"
    unfolding C fst_conv snd_conv using A B' by (intro conjI)
qed

lemma Releases_status:
  "(\<forall>req resp. request libS (''https://api.github.com/repos/'' @ repo @ ''/releases'') [] = Inr req
          \<and> client_Do libS (client a) req = Inr resp \<longrightarrow>
        ((snd (fst (Releases libS a repo w)) =
            Some (Errorf ((''https://api.github.com/repos/'' @ repo @ ''/releases'')
                          @ '': GitHub API request failed with '' @ Status resp)))
           = (StatusCode resp < 200 \<or> 299 < StatusCode resp))
        \<and> (StatusCode resp < 200 \<or> 299 < StatusCode resp \<longrightarrow>
             Releases libS a repo w =
               (([],
                 Some (Errorf ((''https://api.github.com/repos/'' @ repo @ ''/releases'')
                               @ '': GitHub API request failed with '' @ Status resp))),
                w @ [Sent (client a) req, BodyClose (handle (Body resp))])))"
proof (intro allI impI, elim conjE)
  fix req :: Request and resp :: Response
  let ?url = "''https://api.github.com/repos/'' @ repo @ ''/releases''"
  let ?d = "decode libS a ?url [] w"
  let ?E = "Some (Errorf (?url @ '': GitHub API request failed with '' @ Status resp))"
  assume r: "request libS ?url [] = Inr req"
    and d: "client_Do libS (client a) req = Inr resp"
  from decode_status_iff [rule_format, OF conjI [OF r d]]
  have A: "(fst ?d = ?E) = (StatusCode resp < 200 \<or> 299 < StatusCode resp)"
    and B: "StatusCode resp < 200 \<or> 299 < StatusCode resp \<longrightarrow>
              ?d = (?E, [], w @ [Sent (client a) req, BodyClose (handle (Body resp))])"
    by blast+
  have C: "Releases libS a repo w = ((fst (snd ?d), fst ?d), snd (snd ?d))"
    by (simp only: Releases_decode Let_def)
  from B have B': "StatusCode resp < 200 \<or> 299 < StatusCode resp \<longrightarrow>
      ((fst (snd ?d), fst ?d), snd (snd ?d)) =
        (([], ?E), w @ [Sent (client a) req, BodyClose (handle (Body resp))])"
    by (intro impI) (simp only: fst_conv snd_conv)
  show "((snd (fst (Releases libS a repo w)) = ?E)
           = (StatusCode resp < 200 \<or> 299 < StatusCode resp))
        \<and> (StatusCode resp < 200 \<or> 299 < StatusCode resp \<longrightarrow>
             Releases libS a repo w =
               (([], ?E), w @ [Sent (client a) req, BodyClose (handle (Body resp))]))"
    unfolding C fst_conv snd_conv using A B' by (intro conjI)
qed

text \<open>
  Claim C1. When \<open>decode\<close> receives a response, it returns the error
  \<open>"<url>: GitHub API request failed with <status>"\<close> exactly when the status code is
  below 200 or above 299; in that case the destination is left as it was and the body is
  closed without having been read. The same holds of \<open>Repo\<close>, \<open>LatestRelease\<close> and
  \<open>Releases\<close>, each with its own URL: on such a status they return that error together
  with the empty destination.
\<close>

theorem decode_status_failure:
  "(\<forall>req resp. request lib url [] = Inr req \<and> client_Do lib (client a) req = Inr resp \<longrightarrow>
      ((fst (decode lib a url dest w) =
          Some (Errorf (url @ '': GitHub API request failed with '' @ Status resp)))
         = (StatusCode resp < 200 \<or> 299 < StatusCode resp))
      \<and> (StatusCode resp < 200 \<or> 299 < StatusCode resp \<longrightarrow>
           decode lib a url dest w =
             (Some (Errorf (url @ '': GitHub API request failed with '' @ Status resp)), dest,
              w @ [Sent (client a) req, BodyClose (handle (Body resp))])))
   \<and> (\<forall>req resp. request libR (''https://api.github.com/repos/'' @ repo) [] = Inr req
          \<and> client_Do libR (client a) req = Inr resp \<longrightarrow>
        ((snd (fst (Repo libR a repo w)) =
            Some (Errorf ((''https://api.github.com/repos/'' @ repo)
                          @ '': GitHub API request failed with '' @ Status resp)))
           = (StatusCode resp < 200 \<or> 299 < StatusCode resp))
        \<and> (StatusCode resp < 200 \<or> 299 < StatusCode resp \<longrightarrow>
             Repo libR a repo w =
               ((\<lparr>Description = '''', Homepage = ''''\<rparr>,
                 Some (Errorf ((''https://api.github.com/repos/'' @ repo)
                               @ '': GitHub API request failed with '' @ Status resp))),
                w @ [Sent (client a) req, BodyClose (handle (Body resp))])))
   \<and> (\<forall>req resp. request libL (''https://api.github.com/repos/'' @ repo @ ''/releases/latest'') [] = Inr req
          \<and> client_Do libL (client a) req = Inr resp \<longrightarrow>
        ((snd (fst (LatestRelease libL a repo w)) =
            Some (Errorf ((''https://api.github.com/repos/'' @ repo @ ''/releases/latest'')
                          @ '': GitHub API request failed with '' @ Status resp)))
           = (StatusCode resp < 200 \<or> 299 < StatusCode resp))
        \<and> (StatusCode resp < 200 \<or> 299 < StatusCode resp \<longrightarrow>
             LatestRelease libL a repo w =
               ((\<lparr>TagName = '''', Assets = []\<rparr>,
                 Some (Errorf ((''https://api.github.com/repos/'' @ repo @ ''/releases/latest'')
                               @ '': GitHub API request failed with '' @ Status resp))),
                w @ [Sent (client a) req, BodyClose (handle (Body resp))])))
   \<and> (\<forall>req resp. request libS (''https://api.github.com/repos/'' @ repo @ ''/releases'') [] = Inr req
          \<and> client_Do libS (client a) req = Inr resp \<longrightarrow>
        ((snd (fst (Releases libS a repo w)) =
            Some (Errorf ((''https://api.github.com/repos/'' @ repo @ ''/releases'')
                          @ '': GitHub API request failed with '' @ Status resp)))
           = (StatusCode resp < 200 \<or> 299 < StatusCode resp))
        \<and> (StatusCode resp < 200 \<or> 299 < StatusCode resp \<longrightarrow>
             Releases libS a repo w =
               (([],
                 Some (Errorf ((''https://api.github.com/repos/'' @ repo @ ''/releases'')
                               @ '': GitHub API request failed with '' @ Status resp))),
                w @ [Sent (client a) req, BodyClose (handle (Body resp))])))"
  by (intro conjI decode_status_iff Repo_status LatestRelease_status Releases_status)

theorem decode_status_failure_witness:
  "decode (mock (Inr not_found) (None, ())) (New '''')
        ''https://api.github.com/repos/foo/bar'' () [] =
       (Some (Errorf ''https://api.github.com/repos/foo/bar: GitHub API request failed with 404 Not Found''),
        (),
        [Sent DefaultClient
           \<lparr>Method = ''GET'', Target = ''https://api.github.com/repos/foo/bar'', Header = []\<rparr>,
         BodyClose 7])
   \<and> Repo (mock (Inr not_found) (None, \<lparr>Description = ''d'', Homepage = ''h''\<rparr>)) (New '''')
        ''foo/bar'' [] =
       ((\<lparr>Description = '''', Homepage = ''''\<rparr>,
         Some (Errorf ''https://api.github.com/repos/foo/bar: GitHub API request failed with 404 Not Found'')),
        [Sent DefaultClient
           \<lparr>Method = ''GET'', Target = ''https://api.github.com/repos/foo/bar'', Header = []\<rparr>,
         BodyClose 7])
   \<and> LatestRelease (mock (Inr not_found) (None, \<lparr>TagName = ''v1'', Assets = []\<rparr>)) (New '''')
        ''foo/bar'' [] =
       ((\<lparr>TagName = '''', Assets = []\<rparr>,
         Some (Errorf ''https://api.github.com/repos/foo/bar/releases/latest: GitHub API request failed with 404 Not Found'')),
        [Sent DefaultClient
           \<lparr>Method = ''GET'', Target = ''https://api.github.com/repos/foo/bar/releases/latest'',
              Header = []\<rparr>,
         BodyClose 7])
   \<and> Releases (mock (Inr not_found) (None, [\<lparr>TagName = ''v1'', Assets = []\<rparr>])) (New '''')
        ''foo/bar'' [] =
       (([],
         Some (Errorf ''https://api.github.com/repos/foo/bar/releases: GitHub API request failed with 404 Not Found'')),
        [Sent DefaultClient
           \<lparr>Method = ''GET'', Target = ''https://api.github.com/repos/foo/bar/releases'',
              Header = []\<rparr>,
         BodyClose 7])
   \<and> snd (fst (Repo (mock (Inr (ok repo_json)) (None, \<lparr>Description = ''d'', Homepage = ''h''\<rparr>))
                 (New '''') ''foo/bar'' [])) \<noteq>
       Some (Errorf ''https://api.github.com/repos/foo/bar: GitHub API request failed with 200 OK'')"
proof -
  let ?libD = "mock (Inr not_found) (None, ()) :: unit stdlib"
  let ?libR = "mock (Inr not_found) (None, \<lparr>Description = ''d'', Homepage = ''h''\<rparr>)"
  let ?libL = "mock (Inr not_found) (None, \<lparr>TagName = ''v1'', Assets = []\<rparr>)"
  let ?libS = "mock (Inr not_found) (None, [\<lparr>TagName = ''v1'', Assets = []\<rparr>])"
  let ?libK = "mock (Inr (ok repo_json)) (None, \<lparr>Description = ''d'', Homepage = ''h''\<rparr>)"
  let ?a = "New ''''"
  let ?u = "''https://api.github.com/repos/foo/bar''"
  let ?uR = "''https://api.github.com/repos/'' @ ''foo/bar''"
  let ?uL = "''https://api.github.com/repos/'' @ ''foo/bar'' @ ''/releases/latest''"
  let ?uS = "''https://api.github.com/repos/'' @ ''foo/bar'' @ ''/releases''"
  note T = decode_status_failure
             [where lib = ?libD and url = ?u and dest = "()" and libR = ?libR and libL = ?libL
                and libS = ?libS and a = ?a and repo = "''foo/bar''" and w = "[]"]
  note K = decode_status_failure
             [where libR = ?libK and a = ?a and repo = "''foo/bar''" and w = "[]"]
  have s: "StatusCode not_found < 200 \<or> 299 < StatusCode not_found"
    by (simp add: not_found_def)
  have rD: "request ?libD ?u [] = Inr \<lparr>Method = ''GET'', Target = ?u, Header = []\<rparr>"
    by (simp add: mock_simps)
  have dD: "client_Do ?libD (client ?a) \<lparr>Method = ''GET'', Target = ?u, Header = []\<rparr>
              = Inr not_found"
    by (simp add: mock_def)
  from T [THEN conjunct1, rule_format, OF conjI [OF rD dD], THEN conjunct2, rule_format, OF s]
  have c1: "decode ?libD ?a ?u () [] =
       (Some (Errorf ''https://api.github.com/repos/foo/bar: GitHub API request failed with 404 Not Found''),
        (), [Sent DefaultClient \<lparr>Method = ''GET'', Target = ?u, Header = []\<rparr>, BodyClose 7])"
    by (simp add: not_found_def New_def)
  have rR: "request ?libR ?uR [] = Inr \<lparr>Method = ''GET'', Target = ?uR, Header = []\<rparr>"
    by (simp add: mock_simps)
  have dR: "client_Do ?libR (client ?a) \<lparr>Method = ''GET'', Target = ?uR, Header = []\<rparr>
              = Inr not_found"
    by (simp add: mock_def)
  from T [THEN conjunct2, THEN conjunct1, rule_format, OF conjI [OF rR dR], THEN conjunct2,
          rule_format, OF s]
  have c2: "Repo ?libR ?a ''foo/bar'' [] =
       ((\<lparr>Description = '''', Homepage = ''''\<rparr>,
         Some (Errorf ''https://api.github.com/repos/foo/bar: GitHub API request failed with 404 Not Found'')),
        [Sent DefaultClient \<lparr>Method = ''GET'', Target = ?u, Header = []\<rparr>, BodyClose 7])"
    by (simp add: not_found_def New_def)
  have rL: "request ?libL ?uL [] = Inr \<lparr>Method = ''GET'', Target = ?uL, Header = []\<rparr>"
    by (simp add: mock_simps)
  have dL: "client_Do ?libL (client ?a) \<lparr>Method = ''GET'', Target = ?uL, Header = []\<rparr>
              = Inr not_found"
    by (simp add: mock_def)
  from T [THEN conjunct2, THEN conjunct2, THEN conjunct1, rule_format, OF conjI [OF rL dL],
          THEN conjunct2, rule_format, OF s]
  have c3: "LatestRelease ?libL ?a ''foo/bar'' [] =
       ((\<lparr>TagName = '''', Assets = []\<rparr>,
         Some (Errorf ''https://api.github.com/repos/foo/bar/releases/latest: GitHub API request failed with 404 Not Found'')),
        [Sent DefaultClient
           \<lparr>Method = ''GET'', Target = ''https://api.github.com/repos/foo/bar/releases/latest'',
              Header = []\<rparr>,
         BodyClose 7])"
    by (simp add: not_found_def New_def)
  have rS: "request ?libS ?uS [] = Inr \<lparr>Method = ''GET'', Target = ?uS, Header = []\<rparr>"
    by (simp add: mock_simps)
  have dS: "client_Do ?libS (client ?a) \<lparr>Method = ''GET'', Target = ?uS, Header = []\<rparr>
              = Inr not_found"
    by (simp add: mock_def)
  from T [THEN conjunct2, THEN conjunct2, THEN conjunct2, rule_format, OF conjI [OF rS dS],
          THEN conjunct2, rule_format, OF s]
  have c4: "Releases ?libS ?a ''foo/bar'' [] =
       (([],
         Some (Errorf ''https://api.github.com/repos/foo/bar/releases: GitHub API request failed with 404 Not Found'')),
        [Sent DefaultClient
           \<lparr>Method = ''GET'', Target = ''https://api.github.com/repos/foo/bar/releases'',
              Header = []\<rparr>,
         BodyClose 7])"
    by (simp add: not_found_def New_def)
  have rK: "request ?libK ?uR [] = Inr \<lparr>Method = ''GET'', Target = ?uR, Header = []\<rparr>"
    by (simp add: mock_simps)
  have dK: "client_Do ?libK (client ?a) \<lparr>Method = ''GET'', Target = ?uR, Header = []\<rparr>
              = Inr (ok repo_json)"
    by (simp add: mock_def)
  have sK: "\<not> (StatusCode (ok repo_json) < 200 \<or> 299 < StatusCode (ok repo_json))"
    by (simp add: ok_def)
  from K [THEN conjunct2, THEN conjunct1, rule_format, OF conjI [OF rK dK], THEN conjunct1] sK
  have c5: "snd (fst (Repo ?libK ?a ''foo/bar'' [])) \<noteq>
       Some (Errorf ''https://api.github.com/repos/foo/bar: GitHub API request failed with 200 OK'')"
    by (simp add: ok_def)
  from c1 c2 c3 c4 c5 show ?thesis by (intro conjI)
qed

subsection \<open>What the decoder leaves\<close>

lemma decode_2xx:
  assumes "request lib url [] = Inr req"
    and "client_Do lib (client a) req = Inr resp"
    and "200 \<le> StatusCode resp" and "StatusCode resp \<le> 299"
  shows "decode lib a url dest w =
           (map_option (\<lambda>err. Wrap err url) (fst (json_Decode lib (content (Body resp)) dest)),
            snd (json_Decode lib (content (Body resp)) dest),
            w @ [Sent (client a) req, BodyRead (handle (Body resp)),
                 BodyClose (handle (Body resp))])"
  using assms by (simp add: decode_def split: prod.splits option.splits)

lemma decode_nil_iff:
  "(fst (decode lib a url dest w) = None) =
     (\<exists>req resp d. request lib url [] = Inr req \<and> client_Do lib (client a) req = Inr resp
        \<and> 200 \<le> StatusCode resp \<and> StatusCode resp \<le> 299
        \<and> json_Decode lib (content (Body resp)) dest = (None, d))"
  by (auto simp: decode_def split: sum.splits if_splits prod.splits option.splits)

lemma Repo_nil:
  "((snd (fst (Repo libR a repo w)) = None) =
      (\<exists>req resp d. request libR (''https://api.github.com/repos/'' @ repo) [] = Inr req
         \<and> client_Do libR (client a) req = Inr resp
         \<and> 200 \<le> StatusCode resp \<and> StatusCode resp \<le> 299
         \<and> json_Decode libR (content (Body resp)) \<lparr>Description = '''', Homepage = ''''\<rparr> = (None, d)))"
  unfolding Repo_decode Let_def fst_conv snd_conv by (rule decode_nil_iff)

lemma Repo_2xx:
  "(\<forall>req resp. request libR (''https://api.github.com/repos/'' @ repo) [] = Inr req
          \<and> client_Do libR (client a) req = Inr resp
          \<and> 200 \<le> StatusCode resp \<and> StatusCode resp \<le> 299 \<longrightarrow>
        Repo libR a repo w =
          ((snd (json_Decode libR (content (Body resp)) \<lparr>Description = '''', Homepage = ''''\<rparr>),
            map_option (\<lambda>err. Wrap err (''https://api.github.com/repos/'' @ repo))
              (fst (json_Decode libR (content (Body resp)) \<lparr>Description = '''', Homepage = ''''\<rparr>))),
           w @ [Sent (client a) req, BodyRead (handle (Body resp)),
                BodyClose (handle (Body resp))]))"
proof (intro allI impI, elim conjE)
  fix req :: Request and resp :: Response
  let ?url = "''https://api.github.com/repos/'' @ repo"
  let ?d = "decode libR a ?url \<lparr>Description = '''', Homepage = ''''\<rparr> w"
  let ?j = "json_Decode libR (content (Body resp)) \<lparr>Description = '''', Homepage = ''''\<rparr>"
  assume r: "request libR ?url [] = Inr req"
    and d: "client_Do libR (client a) req = Inr resp"
    and lo: "200 \<le> StatusCode resp" and hi: "StatusCode resp \<le> 299"
  have C: "Repo libR a repo w = ((fst (snd ?d), fst ?d), snd (snd ?d))"
    by (simp only: Repo_decode Let_def)
  have D: "?d = (map_option (\<lambda>err. Wrap err ?url) (fst ?j), snd ?j,
                 w @ [Sent (client a) req, BodyRead (handle (Body resp)),
                      BodyClose (handle (Body resp))])"
    by (rule decode_2xx [OF r d lo hi])
  show "Repo libR a repo w =
          ((snd ?j, map_option (\<lambda>err. Wrap err ?url) (fst ?j)),
           w @ [Sent (client a) req, BodyRead (handle (Body resp)),
                BodyClose (handle (Body resp))])"
    unfolding C by (subst D, subst D, subst D) (simp only: fst_conv snd_conv)
qed

lemma LatestRelease_nil:
  "((snd (fst (LatestRelease libL a repo w)) = None) =
      (\<exists>req resp d. request libL (''https://api.github.com/repos/'' @ repo @ ''/releases/latest'') [] = Inr req
         \<and> client_Do libL (client a) req = Inr resp
         \<and> 200 \<le> StatusCode resp \<and> StatusCode resp \<le> 299
         \<and> json_Decode libL (content (Body resp)) \<lparr>TagName = '''', Assets = []\<rparr> = (None, d)))"
  unfolding LatestRelease_decode Let_def fst_conv snd_conv by (rule decode_nil_iff)

lemma LatestRelease_2xx:
  "(\<forall>req resp. request libL (''https://api.github.com/repos/'' @ repo @ ''/releases/latest'') [] = Inr req
          \<and> client_Do libL (client a) req = Inr resp
          \<and> 200 \<le> StatusCode resp \<and> StatusCode resp \<le> 299 \<longrightarrow>
        LatestRelease libL a repo w =
          ((snd (json_Decode libL (content (Body resp)) \<lparr>TagName = '''', Assets = []\<rparr>),
            map_option (\<lambda>err. Wrap err (''https://api.github.com/repos/'' @ repo @ ''/releases/latest''))
              (fst (json_Decode libL (content (Body resp)) \<lparr>TagName = '''', Assets = []\<rparr>))),
           w @ [Sent (client a) req, BodyRead (handle (Body resp)),
                BodyClose (handle (Body resp))]))"
proof (intro allI impI, elim conjE)
  fix req :: Request and resp :: Response
  let ?url = "''https://api.github.com/repos/'' @ repo @ ''/releases/latest''"
  let ?d = "decode libL a ?url \<lparr>TagName = '''', Assets = []\<rparr> w"
  let ?j = "json_Decode libL (content (Body resp)) \<lparr>TagName = '''', Assets = []\<rparr>"
  assume r: "request libL ?url [] = Inr req"
    and d: "client_Do libL (client a) req = Inr resp"
    and lo: "200 \<le> StatusCode resp" and hi: "StatusCode resp \<le> 299"
  have C: "LatestRelease libL a repo w = ((fst (snd ?d), fst ?d), snd (snd ?d))"
    by (simp only: LatestRelease_decode Let_def)
  have D: "?d = (map_option (\<lambda>err. Wrap err ?url) (fst ?j), snd ?j,
                 w @ [Sent (client a) req, BodyRead (handle (Body resp)),
                      BodyClose (handle (Body resp))])"
    by (rule decode_2xx [OF r d lo hi])
  show "LatestRelease libL a repo w =
          ((snd ?j, map_option (\<lambda>err. Wrap err ?url) (fst ?j)),
           w @ [Sent (client a) req, BodyRead (handle (Body resp)),
                BodyClose (handle (Body resp))])"
    unfolding C by (subst D, subst D, subst D) (simp only: fst_conv snd_conv)
qed

lemma Releases_nil:
  "((snd (fst (Releases libS a repo w)) = None) =
      (\<exists>req resp d. request libS (''https://api.github.com/repos/'' @ repo @ ''/releases'') [] = Inr req
         \<and> client_Do libS (client a) req = Inr resp
         \<and> 200 \<le> StatusCode resp \<and> StatusCode resp \<le> 299
         \<and> json_Decode libS (content (Body resp)) [] = (None, d)))"
  unfolding Releases_decode Let_def fst_conv snd_conv by (rule decode_nil_iff)

lemma Releases_2xx:
  "(\<forall>req resp. request libS (''https://api.github.com/repos/'' @ repo @ ''/releases'') [] = Inr req
          \<and> client_Do libS (client a) req = Inr resp
          \<and> 200 \<le> StatusCode resp \<and> StatusCode resp \<le> 299 \<longrightarrow>
        Releases libS a repo w =
          ((snd (json_Decode libS (content (Body resp)) []),
            map_option (\<lambda>err. Wrap err (''https://api.github.com/repos/'' @ repo @ ''/releases''))
              (fst (json_Decode libS (content (Body resp)) []))),
           w @ [Sent (client a) req, BodyRead (handle (Body resp)),
                BodyClose (handle (Body resp))]))"
proof (intro allI impI, elim conjE)
  fix req :: Request and resp :: Response
  let ?url = "''https://api.github.com/repos/'' @ repo @ ''/releases''"
  let ?d = "decode libS a ?url [] w"
  let ?j = "json_Decode libS (content (Body resp)) []"
  assume r: "request libS ?url [] = Inr req"
    and d: "client_Do libS (client a) req = Inr resp"
    and lo: "200 \<le> StatusCode resp" and hi: "StatusCode resp \<le> 299"
  have C: "Releases libS a repo w = ((fst (snd ?d), fst ?d), snd (snd ?d))"
    by (simp only: Releases_decode Let_def)
  have D: "?d = (map_option (\<lambda>err. Wrap err ?url) (fst ?j), snd ?j,
                 w @ [Sent (client a) req, BodyRead (handle (Body resp)),
                      BodyClose (handle (Body resp))])"
    by (rule decode_2xx [OF r d lo hi])
  show "Releases libS a repo w =
          ((snd ?j, map_option (\<lambda>err. Wrap err ?url) (fst ?j)),
           w @ [Sent (client a) req, BodyRead (handle (Body resp)),
                BodyClose (handle (Body resp))])"
    unfolding C by (subst D, subst D, subst D) (simp only: fst_conv snd_conv)
qed

text \<open>
  Claim C2, as it is written, excludes a partly populated result with a nil error and
  promises an error for every malformed body. The client checks neither: it returns what
  the decoder leaves. A body without the key \<open>homepage\<close> gives a \<open>Repo\<close> whose
  \<open>Homepage\<close> is empty, with a nil error; a body with garbage after its first JSON value
  gives a nil error too.
\<close>

theorem decoding_partial_counterexample:
  "Repo (mock (Inr (ok partial_repo_json)) (None, \<lparr>Description = ''d'', Homepage = ''''\<rparr>))
        (New '''') ''cashapp/hermit'' []
     = ((\<lparr>Description = ''d'', Homepage = ''''\<rparr>, None),
        [Sent DefaultClient
           \<lparr>Method = ''GET'', Target = ''https://api.github.com/repos/cashapp/hermit'',
              Header = []\<rparr>,
         BodyRead 3, BodyClose 3])
   \<and> Repo (mock (Inr (ok trailing_repo_json)) (None, \<lparr>Description = ''d'', Homepage = ''h''\<rparr>))
        (New '''') ''cashapp/hermit'' []
     = ((\<lparr>Description = ''d'', Homepage = ''h''\<rparr>, None),
        [Sent DefaultClient
           \<lparr>Method = ''GET'', Target = ''https://api.github.com/repos/cashapp/hermit'',
              Header = []\<rparr>,
         BodyRead 3, BodyClose 3])"
  by (simp add: Repo_def decode_def mock_simps)

text \<open>
  Claim C2, amended. \<open>Repo\<close>, \<open>LatestRelease\<close> and \<open>Releases\<close> return a nil error
  exactly when a response with a status code from 200 to 299 was received and the JSON
  decoder reported no error on its body. On every such response the result is the
  destination as the decoder left it, and the error is nil if the decoder reported none
  and otherwise the decoder's error wrapped with the URL.
\<close>

theorem decoding_follows_decoder:
  "((snd (fst (Repo libR a repo w)) = None) =
      (\<exists>req resp d. request libR (''https://api.github.com/repos/'' @ repo) [] = Inr req
         \<and> client_Do libR (client a) req = Inr resp
         \<and> 200 \<le> StatusCode resp \<and> StatusCode resp \<le> 299
         \<and> json_Decode libR (content (Body resp)) \<lparr>Description = '''', Homepage = ''''\<rparr> = (None, d)))
   \<and> (\<forall>req resp. request libR (''https://api.github.com/repos/'' @ repo) [] = Inr req
          \<and> client_Do libR (client a) req = Inr resp
          \<and> 200 \<le> StatusCode resp \<and> StatusCode resp \<le> 299 \<longrightarrow>
        Repo libR a repo w =
          ((snd (json_Decode libR (content (Body resp)) \<lparr>Description = '''', Homepage = ''''\<rparr>),
            map_option (\<lambda>err. Wrap err (''https://api.github.com/repos/'' @ repo))
              (fst (json_Decode libR (content (Body resp)) \<lparr>Description = '''', Homepage = ''''\<rparr>))),
           w @ [Sent (client a) req, BodyRead (handle (Body resp)),
                BodyClose (handle (Body resp))]))
   \<and> ((snd (fst (LatestRelease libL a repo w)) = None) =
      (\<exists>req resp d. request libL (''https://api.github.com/repos/'' @ repo @ ''/releases/latest'') [] = Inr req
         \<and> client_Do libL (client a) req = Inr resp
         \<and> 200 \<le> StatusCode resp \<and> StatusCode resp \<le> 299
         \<and> json_Decode libL (content (Body resp)) \<lparr>TagName = '''', Assets = []\<rparr> = (None, d)))
   \<and> (\<forall>req resp. request libL (''https://api.github.com/repos/'' @ repo @ ''/releases/latest'') [] = Inr req
          \<and> client_Do libL (client a) req = Inr resp
          \<and> 200 \<le> StatusCode resp \<and> StatusCode resp \<le> 299 \<longrightarrow>
        LatestRelease libL a repo w =
          ((snd (json_Decode libL (content (Body resp)) \<lparr>TagName = '''', Assets = []\<rparr>),
            map_option (\<lambda>err. Wrap err (''https://api.github.com/repos/'' @ repo @ ''/releases/latest''))
              (fst (json_Decode libL (content (Body resp)) \<lparr>TagName = '''', Assets = []\<rparr>))),
           w @ [Sent (client a) req, BodyRead (handle (Body resp)),
                BodyClose (handle (Body resp))]))
   \<and> ((snd (fst (Releases libS a repo w)) = None) =
      (\<exists>req resp d. request libS (''https://api.github.com/repos/'' @ repo @ ''/releases'') [] = Inr req
         \<and> client_Do libS (client a) req = Inr resp
         \<and> 200 \<le> StatusCode resp \<and> StatusCode resp \<le> 299
         \<and> json_Decode libS (content (Body resp)) [] = (None, d)))
   \<and> (\<forall>req resp. request libS (''https://api.github.com/repos/'' @ repo @ ''/releases'') [] = Inr req
          \<and> client_Do libS (client a) req = Inr resp
          \<and> 200 \<le> StatusCode resp \<and> StatusCode resp \<le> 299 \<longrightarrow>
        Releases libS a repo w =
          ((snd (json_Decode libS (content (Body resp)) []),
            map_option (\<lambda>err. Wrap err (''https://api.github.com/repos/'' @ repo @ ''/releases''))
              (fst (json_Decode libS (content (Body resp)) []))),
           w @ [Sent (client a) req, BodyRead (handle (Body resp)),
                BodyClose (handle (Body resp))]))"
  by (intro conjI Repo_nil Repo_2xx LatestRelease_nil LatestRelease_2xx Releases_nil Releases_2xx)

theorem decoding_follows_decoder_witness:
  "Repo (mock (Inr (ok repo_json)) (None, \<lparr>Description = ''d'', Homepage = ''h''\<rparr>))
        (New '''') ''cashapp/hermit'' []
     = ((\<lparr>Description = ''d'', Homepage = ''h''\<rparr>, None),
        [Sent DefaultClient
           \<lparr>Method = ''GET'', Target = ''https://api.github.com/repos/cashapp/hermit'',
              Header = []\<rparr>,
         BodyRead 3, BodyClose 3])
   \<and> LatestRelease
        (mock (Inr (ok ''{''))
           (Some (LibError ''unexpected EOF''), \<lparr>TagName = '''', Assets = []\<rparr>))
        (New '''') ''cashapp/hermit'' []
     = ((\<lparr>TagName = '''', Assets = []\<rparr>,
         Some (Wrap (LibError ''unexpected EOF'')
                 ''https://api.github.com/repos/cashapp/hermit/releases/latest'')),
        [Sent DefaultClient
           \<lparr>Method = ''GET'',
              Target = ''https://api.github.com/repos/cashapp/hermit/releases/latest'',
              Header = []\<rparr>,
         BodyRead 3, BodyClose 3])
   \<and> Releases
        (mock (Inr (ok bad_releases_json))
           (Some (LibError ''json: cannot unmarshal number into Go struct field Release.tag_name of type string''),
            [\<lparr>TagName = '''', Assets = []\<rparr>]))
        (New '''') ''cashapp/hermit'' []
     = (([\<lparr>TagName = '''', Assets = []\<rparr>],
         Some (Wrap (LibError ''json: cannot unmarshal number into Go struct field Release.tag_name of type string'')
                 ''https://api.github.com/repos/cashapp/hermit/releases'')),
        [Sent DefaultClient
           \<lparr>Method = ''GET'', Target = ''https://api.github.com/repos/cashapp/hermit/releases'',
              Header = []\<rparr>,
         BodyRead 3, BodyClose 3])
   \<and> (\<exists>req resp d.
         request (mock (Inr (ok repo_json)) (None, \<lparr>Description = ''d'', Homepage = ''h''\<rparr>))
           ''https://api.github.com/repos/cashapp/hermit'' [] = Inr req
         \<and> client_Do (mock (Inr (ok repo_json)) (None, \<lparr>Description = ''d'', Homepage = ''h''\<rparr>))
             (client (New '''')) req = Inr resp
         \<and> 200 \<le> StatusCode resp \<and> StatusCode resp \<le> 299
         \<and> json_Decode (mock (Inr (ok repo_json)) (None, \<lparr>Description = ''d'', Homepage = ''h''\<rparr>))
             (content (Body resp)) \<lparr>Description = '''', Homepage = ''''\<rparr> = (None, d))"
proof -
  let ?libR = "mock (Inr (ok repo_json)) (None, \<lparr>Description = ''d'', Homepage = ''h''\<rparr>)"
  let ?eL = "LibError ''unexpected EOF''"
  let ?libL = "mock (Inr (ok ''{'')) (Some ?eL, \<lparr>TagName = '''', Assets = []\<rparr>)"
  let ?eS = "LibError ''json: cannot unmarshal number into Go struct field Release.tag_name of type string''"
  let ?libS = "mock (Inr (ok bad_releases_json)) (Some ?eS, [\<lparr>TagName = '''', Assets = []\<rparr>])"
  let ?a = "New ''''"
  let ?uR = "''https://api.github.com/repos/'' @ ''cashapp/hermit''"
  let ?uL = "''https://api.github.com/repos/'' @ ''cashapp/hermit'' @ ''/releases/latest''"
  let ?uS = "''https://api.github.com/repos/'' @ ''cashapp/hermit'' @ ''/releases''"
  note T = decoding_follows_decoder
             [where libR = ?libR and libL = ?libL and libS = ?libS and a = ?a
                and repo = "''cashapp/hermit''" and w = "[]"]
  have rR: "request ?libR ?uR [] = Inr \<lparr>Method = ''GET'', Target = ?uR, Header = []\<rparr>"
    by (simp add: mock_simps)
  have dR: "client_Do ?libR (client ?a) \<lparr>Method = ''GET'', Target = ?uR, Header = []\<rparr>
              = Inr (ok repo_json)"
    by (simp add: mock_def)
  have rL: "request ?libL ?uL [] = Inr \<lparr>Method = ''GET'', Target = ?uL, Header = []\<rparr>"
    by (simp add: mock_simps)
  have dL: "client_Do ?libL (client ?a) \<lparr>Method = ''GET'', Target = ?uL, Header = []\<rparr>
              = Inr (ok ''{'')"
    by (simp add: mock_def)
  have rS: "request ?libS ?uS [] = Inr \<lparr>Method = ''GET'', Target = ?uS, Header = []\<rparr>"
    by (simp add: mock_simps)
  have dS: "client_Do ?libS (client ?a) \<lparr>Method = ''GET'', Target = ?uS, Header = []\<rparr>
              = Inr (ok bad_releases_json)"
    by (simp add: mock_def)
  have lo: "\<And>b. 200 \<le> StatusCode (ok b)" and hi: "\<And>b. StatusCode (ok b) \<le> 299"
    by (simp_all add: ok_def)
  from T [THEN conjunct2, THEN conjunct1, rule_format,
          OF conjI [OF rR conjI [OF dR conjI [OF lo hi]]]]
  have c1: "Repo ?libR ?a ''cashapp/hermit'' [] =
       ((\<lparr>Description = ''d'', Homepage = ''h''\<rparr>, None),
        [Sent DefaultClient
           \<lparr>Method = ''GET'', Target = ''https://api.github.com/repos/cashapp/hermit'',
              Header = []\<rparr>,
         BodyRead 3, BodyClose 3])"
    by (simp add: mock_def ok_def New_def)
  from T [THEN conjunct2, THEN conjunct2, THEN conjunct2, THEN conjunct1, rule_format,
          OF conjI [OF rL conjI [OF dL conjI [OF lo hi]]]]
  have c2: "LatestRelease ?libL ?a ''cashapp/hermit'' [] =
       ((\<lparr>TagName = '''', Assets = []\<rparr>,
         Some (Wrap ?eL ''https://api.github.com/repos/cashapp/hermit/releases/latest'')),
        [Sent DefaultClient
           \<lparr>Method = ''GET'',
              Target = ''https://api.github.com/repos/cashapp/hermit/releases/latest'',
              Header = []\<rparr>,
         BodyRead 3, BodyClose 3])"
    by (simp add: mock_def ok_def New_def)
  from T [THEN conjunct2, THEN conjunct2, THEN conjunct2, THEN conjunct2, THEN conjunct2,
          rule_format, OF conjI [OF rS conjI [OF dS conjI [OF lo hi]]]]
  have c3: "Releases ?libS ?a ''cashapp/hermit'' [] =
       (([\<lparr>TagName = '''', Assets = []\<rparr>],
         Some (Wrap ?eS ''https://api.github.com/repos/cashapp/hermit/releases'')),
        [Sent DefaultClient
           \<lparr>Method = ''GET'', Target = ''https://api.github.com/repos/cashapp/hermit/releases'',
              Header = []\<rparr>,
         BodyRead 3, BodyClose 3])"
    by (simp add: mock_def ok_def New_def)
  from c1 have n: "snd (fst (Repo ?libR ?a ''cashapp/hermit'' [])) = None" by simp
  from T [THEN conjunct1, THEN iffD1, OF n]
  have c4: "\<exists>req resp d.
         request ?libR ''https://api.github.com/repos/cashapp/hermit'' [] = Inr req
         \<and> client_Do ?libR (client (New '''')) req = Inr resp
         \<and> 200 \<le> StatusCode resp \<and> StatusCode resp \<le> 299
         \<and> json_Decode ?libR (content (Body resp)) \<lparr>Description = '''', Homepage = ''''\<rparr>
             = (None, d)"
    by simp
  from c1 c2 c3 c4 show ?thesis by (intro conjI)
qed

subsection \<open>Transport failures\<close>

text \<open>
  Claim C5, as it is written, asks that \<open>Download\<close> too attaches the URL to a transport
  failure. It does not: it returns what \<open>Do\<close> returns. Here \<open>Do\<close> fails on the second
  hop of a redirect, and the error that \<open>Download\<close> returns is that of \<open>Do\<close>, in which
  the URL of the asset does not occur.
\<close>

theorem Download_transport_error_counterexample:
  "client_Do (mock (Inl redirect_refused) (None, ())) (client (New ''''))
     \<lparr>Method = ''GET'', Target = URL sample_asset,
        Header = [(''Accept'', [''application/octet-stream''])]\<rparr> = Inl redirect_refused
   \<and> fst (Download (mock (Inl redirect_refused) (None, ())) (New '''') sample_asset [])
       = Inl redirect_refused
   \<and> \<not> sublist (URL sample_asset) (Error redirect_refused)"
proof -
  have "\<not> sublist (URL sample_asset) (Error redirect_refused)"
    unfolding sample_asset_def redirect_refused_def by (simp add: sublist_Cons_right)
  then show ?thesis
    by (simp add: Download_def mock_simps sample_asset_def)
qed

text \<open>
  Claim C5, amended. When \<open>Do\<close> fails, \<open>Repo\<close>, \<open>LatestRelease\<close> and \<open>Releases\<close>
  return its error wrapped with the URL they requested; \<open>Download\<close> returns the error of
  \<open>Do\<close> unchanged.
\<close>

theorem transport_failure_surfaced:
  "(\<forall>req err. request libR (''https://api.github.com/repos/'' @ repo) [] = Inr req
        \<and> client_Do libR (client a) req = Inl err
      \<longrightarrow> snd (fst (Repo libR a repo w))
            = Some (Wrap err (''https://api.github.com/repos/'' @ repo)))
   \<and> (\<forall>req err.
        request libL (''https://api.github.com/repos/'' @ repo @ ''/releases/latest'') [] = Inr req
        \<and> client_Do libL (client a) req = Inl err
      \<longrightarrow> snd (fst (LatestRelease libL a repo w))
            = Some (Wrap err (''https://api.github.com/repos/'' @ repo @ ''/releases/latest'')))
   \<and> (\<forall>req err.
        request libS (''https://api.github.com/repos/'' @ repo @ ''/releases'') [] = Inr req
        \<and> client_Do libS (client a) req = Inl err
      \<longrightarrow> snd (fst (Releases libS a repo w))
            = Some (Wrap err (''https://api.github.com/repos/'' @ repo @ ''/releases'')))
   \<and> (\<forall>req err.
        request lib (URL asset) [(''Accept'', [''application/octet-stream''])] = Inr req
        \<and> client_Do lib (client a) req = Inl err
      \<longrightarrow> fst (Download lib a asset w) = Inl err)"
proof -
  have "\<forall>req err.
        request lib (URL asset) [(''Accept'', [''application/octet-stream''])] = Inr req
        \<and> client_Do lib (client a) req = Inl err
      \<longrightarrow> fst (Download lib a asset w) = Inl err"
    by (simp add: Download_def)
  then show ?thesis
    unfolding Repo_decode LatestRelease_decode Releases_decode Let_def fst_conv snd_conv
    by (intro conjI decode_transport_error_all)
qed

theorem transport_failure_surfaced_witness:
  "request (mock (Inl refused) (None, \<lparr>Description = '''', Homepage = ''''\<rparr>))
     ''https://api.github.com/repos/cashapp/hermit'' [] =
     Inr \<lparr>Method = ''GET'', Target = ''https://api.github.com/repos/cashapp/hermit'', Header = []\<rparr>
   \<and> snd (fst (Repo (mock (Inl refused) (None, \<lparr>Description = '''', Homepage = ''''\<rparr>))
                  (New '''') ''cashapp/hermit'' []))
       = Some (Wrap refused ''https://api.github.com/repos/cashapp/hermit'')
   \<and> fst (Download (mock (Inl refused) (None, \<lparr>Description = '''', Homepage = ''''\<rparr>))
             (New '''') sample_asset []) = Inl refused"
proof -
  let ?lib = "mock (Inl refused) (None, \<lparr>Description = '''', Homepage = ''''\<rparr>)"
  let ?url = "''https://api.github.com/repos/'' @ ''cashapp/hermit''"
  let ?req = "\<lparr>Method = ''GET'', Target = ?url, Header = []\<rparr>"
  let ?dreq = "\<lparr>Method = ''GET'', Target = URL sample_asset,
                 Header = [(''Accept'', [''application/octet-stream''])]\<rparr>"
  note T = transport_failure_surfaced
             [where libR = ?lib and lib = ?lib and a = "New ''''" and repo = "''cashapp/hermit''"
                and w = "[]" and asset = sample_asset]
  have r: "request ?lib ?url [] = Inr ?req" by (simp add: mock_simps)
  have d: "client_Do ?lib (client (New '''')) ?req = Inl refused" by (simp add: mock_def)
  have r': "request ?lib (URL sample_asset) [(''Accept'', [''application/octet-stream''])]
              = Inr ?dreq"
    by (simp add: mock_simps sample_asset_def)
  have d': "client_Do ?lib (client (New '''')) ?dreq = Inl refused" by (simp add: mock_def)
  from T [THEN conjunct1, rule_format, of ?req refused] r d
  have c1: "snd (fst (Repo ?lib (New '''') ''cashapp/hermit'' [])) = Some (Wrap refused ?url)"
    by simp
  from T [THEN conjunct2, THEN conjunct2, THEN conjunct2, rule_format, of ?dreq refused] r' d'
  have c2: "fst (Download ?lib (New '''') sample_asset []) = Inl refused"
    by simp
  from r c1 c2 show ?thesis by simp
qed

subsection \<open>Download\<close>

text \<open>
  Claim C6. When the request can be built, \<open>Download\<close> hands one \<open>GET\<close> request for
  \<open>asset.URL\<close> with the header \<open>Accept: application/octet-stream\<close> to the HTTP client
  and returns what \<open>Do\<close> returns, whatever the status code, with no body read or closed.
  When it cannot, \<open>Download\<close> returns that error and sends nothing. It returns no other
  error than these two.
\<close>

theorem Download_hands_over_response:
  "(NewRequest_error lib ''GET'' (URL asset) = None \<longrightarrow>
      Download lib a asset w =
        (client_Do lib (client a)
           \<lparr>Method = ''GET'', Target = URL asset,
              Header = [(''Accept'', [''application/octet-stream''])]\<rparr>,
         w @ [Sent (client a)
                \<lparr>Method = ''GET'', Target = URL asset,
                   Header = [(''Accept'', [''application/octet-stream''])]\<rparr>]))
   \<and> (\<forall>cause. NewRequest_error lib ''GET'' (URL asset) = Some cause \<longrightarrow>
         Download lib a asset w = (Inl (WithStack (WithStack cause)), w))
   \<and> (\<forall>err. fst (Download lib a asset w) = Inl err \<longrightarrow>
         (\<exists>cause. NewRequest_error lib ''GET'' (URL asset) = Some cause
                  \<and> err = WithStack (WithStack cause))
         \<or> (NewRequest_error lib ''GET'' (URL asset) = None
             \<and> client_Do lib (client a)
                  \<lparr>Method = ''GET'', Target = URL asset,
                     Header = [(''Accept'', [''application/octet-stream''])]\<rparr> = Inl err))"
proof (cases "NewRequest_error lib ''GET'' (URL asset)")
  case None
  from request_ok [OF None] None show ?thesis by (simp add: Download_def)
next
  case (Some cause)
  from request_failed [OF Some] Some show ?thesis by (simp add: Download_def)
qed

theorem Download_hands_over_response_witness:
  "NewRequest_error (mock (Inr not_found) (None, ())) ''GET'' (URL sample_asset) = None
   \<and> Download (mock (Inr not_found) (None, ())) (New ''ghp_token'') sample_asset [] =
       (Inr not_found,
        [Sent \<lparr>Transport = Some (TokenAuthenticated DefaultTransport ''ghp_token'')\<rparr>
           \<lparr>Method = ''GET'',
              Target = ''https://api.github.com/repos/cashapp/hermit/releases/assets/1'',
              Header = [(''Accept'', [''application/octet-stream''])]\<rparr>])"
proof -
  let ?lib = "mock (Inr not_found) (None, ()) :: unit stdlib"
  have n: "NewRequest_error ?lib ''GET'' (URL sample_asset) = None"
    by (simp add: mock_def has_CTL_byte_def sample_asset_def)
  from Download_hands_over_response [of ?lib sample_asset "New ''ghp_token''" "[]",
         THEN conjunct1, rule_format, OF n]
  have "Download ?lib (New ''ghp_token'') sample_asset [] =
       (Inr not_found,
        [Sent \<lparr>Transport = Some (TokenAuthenticated DefaultTransport ''ghp_token'')\<rparr>
           \<lparr>Method = ''GET'',
              Target = ''https://api.github.com/repos/cashapp/hermit/releases/assets/1'',
              Header = [(''Accept'', [''application/octet-stream''])]\<rparr>])"
    by (simp add: mock_def New_def TokenAuthenticatedTransport_def sample_asset_def)
  with n show ?thesis by simp
qed

subsection \<open>Construction\<close>

text \<open>
  Claim C7. \<open>New\<close> is a total function of the token alone: it cannot fail and has no
  access to the outside world. With the empty token the client is \<open>http.DefaultClient\<close>,
  whose transport is the default one; with any other token its transport is the
  authenticating decorator around the default transport.
\<close>

theorem New_transport:
  "client (New '''') = DefaultClient
   \<and> transport_of (client (New '''')) = DefaultTransport
   \<and> (token \<noteq> '''' \<longrightarrow>
        client (New token) = \<lparr>Transport = Some (TokenAuthenticatedTransport None token)\<rparr>
        \<and> transport_of (client (New token)) = TokenAuthenticated DefaultTransport token)"
  by (simp add: New_def DefaultClient_def transport_of_def TokenAuthenticatedTransport_def)

theorem New_transport_witness:
  "''ghp_token'' \<noteq> ''''
   \<and> transport_of (client (New ''ghp_token'')) = TokenAuthenticated DefaultTransport ''ghp_token''"
proof -
  have n: "''ghp_token'' \<noteq> ''''" by simp
  from New_transport [of "''ghp_token''"] n show ?thesis by blast
qed

subsection \<open>Closing the body\<close>

text \<open>
  Claim C8. When \<open>decode\<close> receives a response, the events it adds are the request,
  the read of the body by the decoder unless the status is a failure, and last the close
  of the body: on a status failure, on a JSON failure and on success alike.
\<close>

theorem decode_closes_body:
  assumes "request lib url [] = Inr req"
    and "client_Do lib (client a) req = Inr resp"
  shows "snd (snd (decode lib a url dest w)) =
           w @ [Sent (client a) req]
             @ (if StatusCode resp < 200 \<or> 299 < StatusCode resp then []
                else [BodyRead (handle (Body resp))])
             @ [BodyClose (handle (Body resp))]
         \<and> last (snd (snd (decode lib a url dest w))) = BodyClose (handle (Body resp))"
  using assms by (simp add: decode_def split: prod.splits option.splits)

theorem decode_closes_body_witness:
  "request (mock (Inr (ok ''{'')) (Some (LibError ''unexpected EOF''), ()))
     ''https://api.github.com/repos/foo/bar'' [] =
     Inr \<lparr>Method = ''GET'', Target = ''https://api.github.com/repos/foo/bar'', Header = []\<rparr>
   \<and> client_Do (mock (Inr (ok ''{'')) (Some (LibError ''unexpected EOF''), ()))
        (client (New ''''))
        \<lparr>Method = ''GET'', Target = ''https://api.github.com/repos/foo/bar'', Header = []\<rparr> =
       Inr (ok ''{'')
   \<and> snd (snd (decode (mock (Inr (ok ''{'')) (Some (LibError ''unexpected EOF''), ()))
                  (New '''') ''https://api.github.com/repos/foo/bar'' () [])) =
       [Sent DefaultClient
          \<lparr>Method = ''GET'', Target = ''https://api.github.com/repos/foo/bar'', Header = []\<rparr>,
        BodyRead 3, BodyClose 3]"
proof -
  let ?lib = "mock (Inr (ok ''{'')) (Some (LibError ''unexpected EOF''), ()) :: unit stdlib"
  let ?url = "''https://api.github.com/repos/foo/bar''"
  let ?req = "\<lparr>Method = ''GET'', Target = ?url, Header = []\<rparr>"
  have r: "request ?lib ?url [] = Inr ?req" by (simp add: mock_simps)
  have d: "client_Do ?lib (client (New '''')) ?req = Inr (ok ''{'')" by (simp add: mock_def)
  from decode_closes_body [of ?lib ?url ?req "New ''''" "ok ''{''" "()" "[]"] r d
  have "snd (snd (decode ?lib (New '''') ?url () [])) =
          [Sent DefaultClient ?req, BodyRead 3, BodyClose 3]"
    by (simp add: ok_def New_def)
  with r d show ?thesis by simp
qed

subsection \<open>Endpoints\<close>

lemma wire_append: "wire hops (xs @ ys) = wire hops xs @ wire hops ys"
  by (induction hops xs rule: wire.induct) simp_all

lemma wire_no_Sent: "(\<forall>c r. Sent c r \<notin> set evs) \<Longrightarrow> wire hops evs = []"
  by (induction hops evs rule: wire.induct) auto

lemma decode_construction_failure:
  "\<forall>cause. NewRequest_error lib ''GET'' url = Some cause \<longrightarrow>
     decode lib a url dest w = (Some (Wrap (WithStack cause) url), dest, w)"
  by (simp add: decode_def request_def http_NewRequest_def)

lemma decode_wire:
  "NewRequest_error lib ''GET'' url = None \<longrightarrow>
     (\<exists>evs. snd (snd (decode lib a url dest w)) =
              w @ Sent (client a) \<lparr>Method = ''GET'', Target = url, Header = []\<rparr> # evs
        \<and> (\<forall>c r. Sent c r \<notin> set evs))
     \<and> wire hops (snd (snd (decode lib a url dest w))) =
         wire hops w @ hops (client a) \<lparr>Method = ''GET'', Target = url, Header = []\<rparr>"
proof
  assume n: "NewRequest_error lib ''GET'' url = None"
  from decode_events_ok [of lib url a dest w] n
  obtain evs where e: "snd (snd (decode lib a url dest w)) =
              w @ Sent (client a) \<lparr>Method = ''GET'', Target = url, Header = []\<rparr> # evs"
    and s: "\<forall>c r. Sent c r \<notin> set evs"
    by blast
  from e s have "wire hops (snd (snd (decode lib a url dest w))) =
         wire hops w @ hops (client a) \<lparr>Method = ''GET'', Target = url, Header = []\<rparr>"
    by (simp add: wire_append wire_no_Sent)
  with e s show "(\<exists>evs. snd (snd (decode lib a url dest w)) =
              w @ Sent (client a) \<lparr>Method = ''GET'', Target = url, Header = []\<rparr> # evs
        \<and> (\<forall>c r. Sent c r \<notin> set evs))
     \<and> wire hops (snd (snd (decode lib a url dest w))) =
         wire hops w @ hops (client a) \<lparr>Method = ''GET'', Target = url, Header = []\<rparr>"
    by blast
qed

lemma Repo_wire:
  "(NewRequest_error libR ''GET'' (''https://api.github.com/repos/'' @ repo) = None \<longrightarrow>
      (\<exists>evs. snd (Repo libR a repo w) =
               w @ Sent (client a)
                     \<lparr>Method = ''GET'', Target = ''https://api.github.com/repos/'' @ repo, Header = []\<rparr> # evs
         \<and> (\<forall>c r. Sent c r \<notin> set evs))
      \<and> wire hops (snd (Repo libR a repo w)) =
          wire hops w
            @ hops (client a) \<lparr>Method = ''GET'', Target = ''https://api.github.com/repos/'' @ repo, Header = []\<rparr>)"
  unfolding Repo_decode Let_def fst_conv snd_conv by (rule decode_wire)

lemma Repo_construction_failure:
  "(\<forall>cause. NewRequest_error libR ''GET'' (''https://api.github.com/repos/'' @ repo) = Some cause \<longrightarrow>
        Repo libR a repo w =
          ((\<lparr>Description = '''', Homepage = ''''\<rparr>, Some (Wrap (WithStack cause) (''https://api.github.com/repos/'' @ repo))), w))"
proof (intro allI impI)
  fix cause
  let ?url = "''https://api.github.com/repos/'' @ repo"
  let ?d = "decode libR a ?url \<lparr>Description = '''', Homepage = ''''\<rparr> w"
  assume n: "NewRequest_error libR ''GET'' ?url = Some cause"
  have C: "Repo libR a repo w = ((fst (snd ?d), fst ?d), snd (snd ?d))"
    by (simp only: Repo_decode Let_def)
  have D: "?d = (Some (Wrap (WithStack cause) ?url), \<lparr>Description = '''', Homepage = ''''\<rparr>, w)"
    by (rule decode_construction_failure [rule_format, OF n])
  show "Repo libR a repo w = ((\<lparr>Description = '''', Homepage = ''''\<rparr>, Some (Wrap (WithStack cause) ?url)), w)"
    unfolding C by (subst D, subst D, subst D) (simp only: fst_conv snd_conv)
qed

lemma LatestRelease_wire:
  "(NewRequest_error libL ''GET'' (''https://api.github.com/repos/'' @ repo @ ''/releases/latest'') = None \<longrightarrow>
      (\<exists>evs. snd (LatestRelease libL a repo w) =
               w @ Sent (client a)
                     \<lparr>Method = ''GET'', Target = ''https://api.github.com/repos/'' @ repo @ ''/releases/latest'', Header = []\<rparr> # evs
         \<and> (\<forall>c r. Sent c r \<notin> set evs))
      \<and> wire hops (snd (LatestRelease libL a repo w)) =
          wire hops w
            @ hops (client a) \<lparr>Method = ''GET'', Target = ''https://api.github.com/repos/'' @ repo @ ''/releases/latest'', Header = []\<rparr>)"
  unfolding LatestRelease_decode Let_def fst_conv snd_conv by (rule decode_wire)

lemma LatestRelease_construction_failure:
  "(\<forall>cause. NewRequest_error libL ''GET'' (''https://api.github.com/repos/'' @ repo @ ''/releases/latest'') = Some cause \<longrightarrow>
        LatestRelease libL a repo w =
          ((\<lparr>TagName = '''', Assets = []\<rparr>, Some (Wrap (WithStack cause) (''https://api.github.com/repos/'' @ repo @ ''/releases/latest''))), w))"
proof (intro allI impI)
  fix cause
  let ?url = "''https://api.github.com/repos/'' @ repo @ ''/releases/latest''"
  let ?d = "decode libL a ?url \<lparr>TagName = '''', Assets = []\<rparr> w"
  assume n: "NewRequest_error libL ''GET'' ?url = Some cause"
  have C: "LatestRelease libL a repo w = ((fst (snd ?d), fst ?d), snd (snd ?d))"
    by (simp only: LatestRelease_decode Let_def)
  have D: "?d = (Some (Wrap (WithStack cause) ?url), \<lparr>TagName = '''', Assets = []\<rparr>, w)"
    by (rule decode_construction_failure [rule_format, OF n])
  show "LatestRelease libL a repo w = ((\<lparr>TagName = '''', Assets = []\<rparr>, Some (Wrap (WithStack cause) ?url)), w)"
    unfolding C by (subst D, subst D, subst D) (simp only: fst_conv snd_conv)
qed

lemma Releases_wire:
  "(NewRequest_error libS ''GET'' (''https://api.github.com/repos/'' @ repo @ ''/releases'') = None \<longrightarrow>
      (\<exists>evs. snd (Releases libS a repo w) =
               w @ Sent (client a)
                     \<lparr>Method = ''GET'', Target = ''https://api.github.com/repos/'' @ repo @ ''/releases'', Header = []\<rparr> # evs
         \<and> (\<forall>c r. Sent c r \<notin> set evs))
      \<and> wire hops (snd (Releases libS a repo w)) =
          wire hops w
            @ hops (client a) \<lparr>Method = ''GET'', Target = ''https://api.github.com/repos/'' @ repo @ ''/releases'', Header = []\<rparr>)"
  unfolding Releases_decode Let_def fst_conv snd_conv by (rule decode_wire)

lemma Releases_construction_failure:
  "(\<forall>cause. NewRequest_error libS ''GET'' (''https://api.github.com/repos/'' @ repo @ ''/releases'') = Some cause \<longrightarrow>
        Releases libS a repo w =
          (([], Some (Wrap (WithStack cause) (''https://api.github.com/repos/'' @ repo @ ''/releases''))), w))"
proof (intro allI impI)
  fix cause
  let ?url = "''https://api.github.com/repos/'' @ repo @ ''/releases''"
  let ?d = "decode libS a ?url [] w"
  assume n: "NewRequest_error libS ''GET'' ?url = Some cause"
  have C: "Releases libS a repo w = ((fst (snd ?d), fst ?d), snd (snd ?d))"
    by (simp only: Releases_decode Let_def)
  have D: "?d = (Some (Wrap (WithStack cause) ?url), [], w)"
    by (rule decode_construction_failure [rule_format, OF n])
  show "Releases libS a repo w = (([], Some (Wrap (WithStack cause) ?url)), w)"
    unfolding C by (subst D, subst D, subst D) (simp only: fst_conv snd_conv)
qed

text \<open>
  Claim C9, as it is written, speaks of every repo string and of exactly one HTTP round
  trip. It fails in two ways. With a newline in the repo string the URL does not parse:
  \<open>http.NewRequest\<close> fails, \<open>Repo\<close> returns the error and no request is sent. And the
  one call of \<open>Do\<close> follows redirects: for a renamed repository it performs two round
  trips, the second to the new location.
\<close>

theorem metadata_round_trip_counterexample:
  "Repo (mock (Inr (ok repo_json)) (None, \<lparr>Description = ''d'', Homepage = ''h''\<rparr>))
        (New '''') (''cashapp/hermit'' @ [CHR 0x0A]) []
     = ((\<lparr>Description = '''', Homepage = ''''\<rparr>,
         Some (Wrap (WithStack (LibError ''net/url: invalid control character in URL''))
                 (''https://api.github.com/repos/cashapp/hermit'' @ [CHR 0x0A]))),
        [])
   \<and> wire moved
        (snd (Repo (mock (Inr (ok repo_json)) (None, \<lparr>Description = ''d'', Homepage = ''h''\<rparr>))
                (New '''') ''old/name'' []))
     = [''https://api.github.com/repos/old/name'',
        ''https://api.github.com/repositories/1296269'']"
  by (simp add: Repo_def decode_def mock_simps moved_def)

text \<open>
  Claim C9, amended. When the request can be built, \<open>Repo\<close>, \<open>LatestRelease\<close> and
  \<open>Releases\<close> hand exactly one request to the HTTP client, a \<open>GET\<close> for
  \<open>https://api.github.com/repos/<repo>\<close>, \<open>.../releases/latest\<close> and \<open>.../releases\<close>,
  and the round trips performed are those of that one call of \<open>Do\<close>. When it cannot be
  built, they send nothing and return the construction error, wrapped with the URL,
  together with the empty destination.
\<close>

theorem metadata_round_trips:
  "(NewRequest_error libR ''GET'' (''https://api.github.com/repos/'' @ repo) = None \<longrightarrow>
      (\<exists>evs. snd (Repo libR a repo w) =
               w @ Sent (client a)
                     \<lparr>Method = ''GET'', Target = ''https://api.github.com/repos/'' @ repo, Header = []\<rparr> # evs
         \<and> (\<forall>c r. Sent c r \<notin> set evs))
      \<and> wire hops (snd (Repo libR a repo w)) =
          wire hops w
            @ hops (client a) \<lparr>Method = ''GET'', Target = ''https://api.github.com/repos/'' @ repo, Header = []\<rparr>)
   \<and> (\<forall>cause. NewRequest_error libR ''GET'' (''https://api.github.com/repos/'' @ repo) = Some cause \<longrightarrow>
        Repo libR a repo w =
          ((\<lparr>Description = '''', Homepage = ''''\<rparr>, Some (Wrap (WithStack cause) (''https://api.github.com/repos/'' @ repo))), w))
   \<and> (NewRequest_error libL ''GET'' (''https://api.github.com/repos/'' @ repo @ ''/releases/latest'') = None \<longrightarrow>
      (\<exists>evs. snd (LatestRelease libL a repo w) =
               w @ Sent (client a)
                     \<lparr>Method = ''GET'', Target = ''https://api.github.com/repos/'' @ repo @ ''/releases/latest'', Header = []\<rparr> # evs
         \<and> (\<forall>c r. Sent c r \<notin> set evs))
      \<and> wire hops (snd (LatestRelease libL a repo w)) =
          wire hops w
            @ hops (client a) \<lparr>Method = ''GET'', Target = ''https://api.github.com/repos/'' @ repo @ ''/releases/latest'', Header = []\<rparr>)
   \<and> (\<forall>cause. NewRequest_error libL ''GET'' (''https://api.github.com/repos/'' @ repo @ ''/releases/latest'') = Some cause \<longrightarrow>
        LatestRelease libL a repo w =
          ((\<lparr>TagName = '''', Assets = []\<rparr>, Some (Wrap (WithStack cause) (''https://api.github.com/repos/'' @ repo @ ''/releases/latest''))), w))
   \<and> (NewRequest_error libS ''GET'' (''https://api.github.com/repos/'' @ repo @ ''/releases'') = None \<longrightarrow>
      (\<exists>evs. snd (Releases libS a repo w) =
               w @ Sent (client a)
                     \<lparr>Method = ''GET'', Target = ''https://api.github.com/repos/'' @ repo @ ''/releases'', Header = []\<rparr> # evs
         \<and> (\<forall>c r. Sent c r \<notin> set evs))
      \<and> wire hops (snd (Releases libS a repo w)) =
          wire hops w
            @ hops (client a) \<lparr>Method = ''GET'', Target = ''https://api.github.com/repos/'' @ repo @ ''/releases'', Header = []\<rparr>)
   \<and> (\<forall>cause. NewRequest_error libS ''GET'' (''https://api.github.com/repos/'' @ repo @ ''/releases'') = Some cause \<longrightarrow>
        Releases libS a repo w =
          (([], Some (Wrap (WithStack cause) (''https://api.github.com/repos/'' @ repo @ ''/releases''))), w))"
  by (intro conjI Repo_wire Repo_construction_failure LatestRelease_wire
        LatestRelease_construction_failure Releases_wire Releases_construction_failure)

theorem metadata_round_trips_witness:
  "NewRequest_error (mock (Inr (ok repo_json)) (None, \<lparr>Description = ''d'', Homepage = ''h''\<rparr>))
     ''GET'' ''https://api.github.com/repos/old/name'' = None
   \<and> (\<exists>evs. snd (Repo (mock (Inr (ok repo_json)) (None, \<lparr>Description = ''d'', Homepage = ''h''\<rparr>))
                    (New '''') ''old/name'' []) =
               Sent DefaultClient
                 \<lparr>Method = ''GET'', Target = ''https://api.github.com/repos/old/name'',
                    Header = []\<rparr> # evs
          \<and> (\<forall>c r. Sent c r \<notin> set evs))
   \<and> wire moved
        (snd (Repo (mock (Inr (ok repo_json)) (None, \<lparr>Description = ''d'', Homepage = ''h''\<rparr>))
                (New '''') ''old/name'' []))
     = [''https://api.github.com/repos/old/name'',
        ''https://api.github.com/repositories/1296269'']
   \<and> NewRequest_error (mock (Inr (ok repo_json)) (None, []) :: Release list stdlib) ''GET''
        (''https://api.github.com/repos/cashapp/hermit'' @ [CHR 0x0A] @ ''/releases'')
       = Some (LibError ''net/url: invalid control character in URL'')
   \<and> Releases (mock (Inr (ok repo_json)) (None, [])) (New '''')
        (''cashapp/hermit'' @ [CHR 0x0A]) []
     = (([], Some (Wrap (WithStack (LibError ''net/url: invalid control character in URL''))
                     (''https://api.github.com/repos/cashapp/hermit'' @ [CHR 0x0A]
                        @ ''/releases''))),
        [])"
proof -
  let ?libR = "mock (Inr (ok repo_json)) (None, \<lparr>Description = ''d'', Homepage = ''h''\<rparr>)"
  let ?libS = "mock (Inr (ok repo_json)) (None, []) :: Release list stdlib"
  let ?e = "LibError ''net/url: invalid control character in URL''"
  have n: "NewRequest_error ?libR ''GET'' (''https://api.github.com/repos/'' @ ''old/name'') = None"
    by (simp add: mock_def has_CTL_byte_def)
  note R = metadata_round_trips [where libR = ?libR and a = "New ''''" and repo = "''old/name''"
          and w = "[]" and hops = moved, THEN conjunct1, rule_format, OF n]
  from R [THEN conjunct1]
  have c1: "\<exists>evs. snd (Repo ?libR (New '''') ''old/name'' []) =
               Sent DefaultClient
                 \<lparr>Method = ''GET'', Target = ''https://api.github.com/repos/old/name'',
                    Header = []\<rparr> # evs
          \<and> (\<forall>c r. Sent c r \<notin> set evs)"
    by (simp add: New_def)
  from R [THEN conjunct2]
  have c2: "wire moved (snd (Repo ?libR (New '''') ''old/name'' []))
     = [''https://api.github.com/repos/old/name'',
        ''https://api.github.com/repositories/1296269'']"
    by (simp add: moved_def)
  have m: "NewRequest_error ?libS ''GET''
             (''https://api.github.com/repos/'' @ (''cashapp/hermit'' @ [CHR 0x0A]) @ ''/releases'')
             = Some ?e"
    by (simp add: mock_def has_CTL_byte_def)
  from metadata_round_trips [where libS = ?libS and a = "New ''''"
          and repo = "''cashapp/hermit'' @ [CHR 0x0A]" and w = "[]",
          THEN conjunct2, THEN conjunct2, THEN conjunct2, THEN conjunct2, THEN conjunct2,
          rule_format, OF m]
  have c3: "Releases ?libS (New '''') (''cashapp/hermit'' @ [CHR 0x0A]) []
     = (([], Some (Wrap (WithStack ?e)
                     (''https://api.github.com/repos/cashapp/hermit'' @ [CHR 0x0A]
                        @ ''/releases''))), [])"
    by simp
  from n c1 c2 m c3 show ?thesis by simp
qed

end
